theory Spec2Isabelle
  imports Main
begin

section \<open>Go values used by the mailer package\<close>

text \<open>
  A Go \<^verbatim>\<open>string\<close> and a \<^verbatim>\<open>[]byte\<close> are byte sequences: \<^typ>\<open>string\<close>, a list of
  8-bit characters. A \<^verbatim>\<open>[]byte\<close> result that may be \<^verbatim>\<open>nil\<close> is a
  \<^typ>\<open>string option\<close> (\<open>None\<close> is \<^verbatim>\<open>nil\<close>), an \<^verbatim>\<open>error\<close> result is an
  \<open>error option\<close> (\<open>None\<close> is \<^verbatim>\<open>nil\<close>).
\<close>

datatype Kind = Disabled

datatype error =
    errors_New string   \<comment> \<open>\<^verbatim>\<open>errors.New(text)\<close>, and any error value of a collaborator\<close>
  | E_Kind string Kind  \<comment> \<open>\<^verbatim>\<open>errors.E(op, kind)\<close> of roadrunner's errors package\<close>
  | E_Err string error  \<comment> \<open>\<^verbatim>\<open>errors.E(op, err)\<close>: \<^verbatim>\<open>err\<close> wrapped under the operation\<close>

subsection \<open>ASCII letter case\<close>

definition isUpperASCII :: "char \<Rightarrow> bool" where
  "isUpperASCII c = (65 \<le> (of_char c :: nat) \<and> (of_char c :: nat) \<le> 90)"

definition toLowerASCII :: "char \<Rightarrow> char" where
  "toLowerASCII c = (if isUpperASCII c then char_of ((of_char c :: nat) + 32) else c)"

definition isASCII :: "string \<Rightarrow> bool" where
  "isASCII s = list_all (\<lambda>c. (of_char c :: nat) < 128) s"

text \<open>
  \<^verbatim>\<open>strings.ToLower\<close>. On a string of ASCII bytes Go maps \<^verbatim>\<open>'A'..'Z'\<close> to
  \<^verbatim>\<open>'a'..'z'\<close> byte by byte, which is this definition. On a string with a byte
  outside ASCII Go maps every rune through \<^verbatim>\<open>unicode.ToLower\<close>; the bytes of such a
  string are kept here as they are. The package compares the result only with
  \<^verbatim>\<open>"username:"\<close> and \<^verbatim>\<open>"password:"\<close>: the only runes outside ASCII whose lower case
  is an ASCII letter are U+0130 (to \<^verbatim>\<open>i\<close>) and U+212A (to \<^verbatim>\<open>k\<close>), and neither letter
  occurs in the two prompts, so both readings give the same comparisons.
\<close>

definition ToLower :: "string \<Rightarrow> string" where
  "ToLower s = map toLowerASCII s"

text \<open>
  Case-insensitive equality of two bytes, and of two byte strings, in the words of the
  specification: the same byte, or the upper-case and the lower-case form of one ASCII letter.
\<close>

definition sameLetter :: "char \<Rightarrow> char \<Rightarrow> bool" where
  "sameLetter c d =
     (c = d \<or> (isUpperASCII c \<and> (of_char d :: nat) = of_char c + 32)
            \<or> (isUpperASCII d \<and> (of_char c :: nat) = of_char d + 32))"

definition matchesIgnoringCase :: "string \<Rightarrow> string \<Rightarrow> bool" where
  "matchesIgnoringCase p t = list_all2 sameLetter p t"

section \<open>AUTH LOGIN (smtp.go)\<close>

text \<open>\<^verbatim>\<open>smtp.ServerInfo\<close> of net/smtp: the server name, whether the connection uses TLS,
  and the advertised mechanisms.\<close>

record ServerInfo =
  si_Name :: string
  si_TLS :: bool
  si_Auth :: "string list"

record smtpLoginAuth =
  username :: string
  password :: string

definition isLocalhost :: "string \<Rightarrow> bool" where
  "isLocalhost name = (name = ''localhost'' \<or> name = ''127.0.0.1'' \<or> name = ''::1'')"

text \<open>\<^verbatim>\<open>Start\<close> returns the triple (mechanism, initial payload, error).\<close>

definition Start :: "smtpLoginAuth \<Rightarrow> ServerInfo \<Rightarrow> string \<times> string option \<times> error option" where
  "Start a server =
     (if \<not> si_TLS server \<and> \<not> isLocalhost (si_Name server)
      then ('''', None, Some (errors_New ''unencrypted connection''))
      else (''LOGIN'', None, None))"

text \<open>\<^verbatim>\<open>Next\<close> returns the pair (response, error); the \<^verbatim>\<open>switch\<close> tries its cases in
  order and falls out to the final \<^verbatim>\<open>return nil, nil\<close>.\<close>

definition Next :: "smtpLoginAuth \<Rightarrow> string \<Rightarrow> bool \<Rightarrow> string option \<times> error option" where
  "Next a fromServer more' =
     (if more' then
        (if ToLower fromServer = ''username:'' then (Some (username a), None)
         else if ToLower fromServer = ''password:'' then (Some (password a), None)
         else (None, None))
      else (None, None))"


section \<open>Pseudorandom strings (deps.go)\<close>

text \<open>A run-time panic of Go ends the call; it is the left summand of a result.\<close>

datatype panic =
    MakesliceLenOutOfRange   \<comment> \<open>\<^verbatim>\<open>make([]byte, n)\<close> with a negative \<^verbatim>\<open>n\<close>\<close>
  | IntnInvalidArgument      \<comment> \<open>\<^verbatim>\<open>rand.Intn(n)\<close> with \<^verbatim>\<open>n <= 0\<close>\<close>
  | IndexOutOfRange
  | NilPointerDereference

text \<open>
  The package-level generator \<^verbatim>\<open>mr\<close> is state: the stream of the raw draws it still
  has to make. \<^verbatim>\<open>Intn(n)\<close> panics for \<^verbatim>\<open>n <= 0\<close> and otherwise consumes one draw and
  returns a value in \<^verbatim>\<open>[0, n)\<close>; every such value is the remainder of some draw.
\<close>

type_synonym Rand = "nat \<Rightarrow> nat"

definition Intn :: "Rand \<Rightarrow> int \<Rightarrow> panic + (int \<times> Rand)" where
  "Intn mr n =
     (if n \<le> 0 then Inl IntnInvalidArgument
      else Inr (int (mr 0) mod n, (\<lambda>i. mr (Suc i))))"

definition defaultRandomAlphabet :: string where
  "defaultRandomAlphabet = ''ABCDEFGHIJKLMNOPQRSTUVWXYZabcdefghijklmnopqrstuvwxyz0123456789''"

text \<open>\<^verbatim>\<open>s[i]\<close>: a byte of a string, with the bounds check of Go.\<close>

definition index :: "string \<Rightarrow> int \<Rightarrow> panic + char" where
  "index s i = (if 0 \<le> i \<and> i < int (length s) then Inr (s ! nat i) else Inl IndexOutOfRange)"

text \<open>The loop \<^verbatim>\<open>for i := range b { b[i] = alphabet[mr.Intn(m)] }\<close> over the \<open>k\<close>
  positions that are left, in order.\<close>

fun fillBytes :: "Rand \<Rightarrow> string \<Rightarrow> int \<Rightarrow> nat \<Rightarrow> panic + (string \<times> Rand)" where
  "fillBytes mr alphabet m 0 = Inr ([], mr)"
| "fillBytes mr alphabet m (Suc k) =
     (case Intn mr m of
        Inl p \<Rightarrow> Inl p
      | Inr (j, mr') \<Rightarrow>
          (case index alphabet j of
             Inl p \<Rightarrow> Inl p
           | Inr b \<Rightarrow>
               (case fillBytes mr' alphabet m k of
                  Inl p \<Rightarrow> Inl p
                | Inr (bs, mr'') \<Rightarrow> Inr (b # bs, mr''))))"

definition PseudorandomStringWithAlphabet ::
  "Rand \<Rightarrow> int \<Rightarrow> string \<Rightarrow> panic + (string \<times> Rand)" where
  "PseudorandomStringWithAlphabet mr length' alphabet =
     (if length' < 0 then Inl MakesliceLenOutOfRange
      else fillBytes mr alphabet (int (length alphabet)) (nat length'))"

definition PseudorandomString :: "Rand \<Rightarrow> int \<Rightarrow> panic + (string \<times> Rand)" where
  "PseudorandomString mr length' =
     PseudorandomStringWithAlphabet mr length' defaultRandomAlphabet"

section \<open>Library functions on strings\<close>

text \<open>
  \<^verbatim>\<open>strings.EqualFold\<close>. Two strings of ASCII bytes are equal under Unicode case folding
  exactly when they have the same lower-case form. For strings with a byte outside ASCII
  the answer comes from the Unicode tables of the Go library, which are a parameter.
\<close>

definition EqualFold :: "(string \<Rightarrow> string \<Rightarrow> bool) \<Rightarrow> string \<Rightarrow> string \<Rightarrow> bool" where
  "EqualFold foldTable s t =
     (if isASCII s \<and> isASCII t then ToLower s = ToLower t else foldTable s t)"

text \<open>\<^verbatim>\<open>strings.Split(s, sep)\<close> for a separator of one byte: the pieces of \<open>s\<close> between
  the occurrences of the separator, one more than there are occurrences.\<close>

fun Split :: "string \<Rightarrow> char \<Rightarrow> string list" where
  "Split [] sep = [[]]"
| "Split (c # cs) sep =
     (if c = sep then [] # Split cs sep
      else (case Split cs sep of
              [] \<Rightarrow> [[c]]
            | p # ps \<Rightarrow> (c # p) # ps))"

text \<open>\<^verbatim>\<open>strings.Join(elems, sep)\<close>.\<close>

fun Join :: "string list \<Rightarrow> string \<Rightarrow> string" where
  "Join [] sep = []"
| "Join [x] sep = x"
| "Join (x # y # zs) sep = x @ sep @ Join (y # zs) sep"

text \<open>\<^verbatim>\<open>%d\<close> of \<^verbatim>\<open>fmt.Sprintf\<close>: an integer in decimal.\<close>

fun digits :: "nat \<Rightarrow> string" where
  "digits n =
     (if n < 10 then [char_of (48 + n)]
      else digits (n div 10) @ [char_of (48 + n mod 10)])"

definition Itoa :: "int \<Rightarrow> string" where
  "Itoa i = (if i < 0 then CHR ''-'' # digits (nat (- i)) else digits (nat i))"

section \<open>Messages\<close>

text \<open>
  Modelled from the spec: the mail address of the data model, \<^verbatim>\<open>{ name, address }\<close>.
  The file of the package that declares \<^verbatim>\<open>Message\<close>, the \<^verbatim>\<open>Mailer\<close> interface and
  \<^verbatim>\<open>addressesToStrings\<close> is not among the sources.
\<close>

record Address =
  a_Name :: string
  a_Address :: string

text \<open>
  Modelled from the spec: the message of the data model. The two mappings are association
  lists; the order of a list is the order in which a \<^verbatim>\<open>range\<close> loop happens to visit the
  entries of the Go map.
\<close>

record Message =
  m_From :: Address
  m_To :: "Address list"
  m_Cc :: "Address list"
  m_Bcc :: "Address list"
  m_Subject :: string
  m_HTML :: string
  m_Text :: string
  m_Attachments :: "(string \<times> string) list"
  m_Headers :: "(string \<times> string) list"

text \<open>
  Modelled from the spec: the display name in the rendering \<^verbatim>\<open>"Name" <address>\<close>, quoted
  by the rule of mail headers: between double quotes, with a backslash before every double
  quote and every backslash.
\<close>

fun escapeName :: "string \<Rightarrow> string" where
  "escapeName [] = []"
| "escapeName (c # cs) =
     (if c = CHR 0x22 \<or> c = CHR 0x5C then CHR 0x5C # c # escapeName cs
      else c # escapeName cs)"

definition quoteName :: "string \<Rightarrow> string" where
  "quoteName name = CHR 0x22 # escapeName name @ [CHR 0x22]"

text \<open>
  Modelled from the spec: \<^verbatim>\<open>format(Address, includeName)\<close> of the AddressFormatter.
  With \<^verbatim>\<open>includeName\<close> and a non-empty name the result is \<^verbatim>\<open>"Name" <address>\<close>,
  otherwise the bare address.
\<close>

definition format :: "Address \<Rightarrow> bool \<Rightarrow> string" where
  "format a includeName =
     (if includeName \<and> a_Name a \<noteq> [] then quoteName (a_Name a) @ '' <'' @ a_Address a @ ''>''
      else a_Address a)"

text \<open>
  Modelled from the spec: \<^verbatim>\<open>addressesToStrings(addresses, withName)\<close>, the batch
  operation \<^verbatim>\<open>formatAll(list, includeName)\<close> of the AddressFormatter, which keeps the order
  of its input.
\<close>

definition addressesToStrings :: "Address list \<Rightarrow> bool \<Rightarrow> string list" where
  "addressesToStrings addresses withName = map (\<lambda>a. format a withName) addresses"

section \<open>The SMTP client (smtp.go)\<close>

definition SmtpAuthPlain :: string where
  "SmtpAuthPlain = ''PLAIN''"

definition SmtpAuthLogin :: string where
  "SmtpAuthLogin = ''LOGIN''"

record AddressConfig =
  ac_Name :: string
  ac_Address :: string

record SmtpClient =
  sc_Host :: string
  sc_Port :: int
  sc_Username :: string
  sc_Password :: string
  sc_Tls :: bool
  sc_AuthMethod :: string
  sc_From :: AddressConfig

text \<open>The two values of \<^verbatim>\<open>smtp.Auth\<close> the client makes: its own LOGIN negotiator, and
  \<^verbatim>\<open>smtp.PlainAuth(identity, username, password, host)\<close>.\<close>

datatype Auth =
    LoginAuth smtpLoginAuth
  | PlainAuth string string string string

text \<open>
  The mail builder of the mailyak library, which is not part of the package. A builder is
  the record of what its setters were given: the server address and authenticator of
  \<^verbatim>\<open>mailyak.New\<close> or \<^verbatim>\<open>mailyak.NewWithTLS\<close>, and the arguments of \<^verbatim>\<open>FromName\<close>, \<^verbatim>\<open>From\<close>,
  \<^verbatim>\<open>Subject\<close>, \<^verbatim>\<open>HTML().Set\<close>, \<^verbatim>\<open>Plain().Set\<close>, \<^verbatim>\<open>To\<close>, \<^verbatim>\<open>Bcc\<close>, \<^verbatim>\<open>Cc\<close>, and
  of every \<^verbatim>\<open>Attach\<close> and \<^verbatim>\<open>AddHeader\<close> in the order of the calls. What the library
  then makes of them (the MIME body, the SMTP dialogue) is outside the package.
\<close>

record MailYak =
  y_host :: string
  y_auth :: "Auth option"
  y_tls :: bool
  y_fromName :: string
  y_fromAddr :: string
  y_subject :: string
  y_html :: string
  y_plain :: string
  y_toAddrs :: "string list"
  y_bccAddrs :: "string list"
  y_ccAddrs :: "string list"
  y_attachments :: "(string \<times> string) list"
  y_headers :: "(string \<times> string) list"

text \<open>\<^verbatim>\<open>exec.Cmd\<close>: the path of the executable, the argument vector (the command name
  first, as \<^verbatim>\<open>exec.Command\<close> builds it) and the standard input.\<close>

record Cmd =
  Path :: string
  Args :: "string list"
  Stdin :: string

text \<open>
  What the package calls and does not contain: the Unicode part of
  \<^verbatim>\<open>strings.EqualFold\<close>, the failure of \<^verbatim>\<open>mailyak.NewWithTLS\<close> for a server address,
  the outcome of \<^verbatim>\<open>yak.Send()\<close>, the encoded words that \<^verbatim>\<open>mime.QEncoding\<close> and
  \<^verbatim>\<open>mime.BEncoding\<close> make of a string that needs encoding, the outcome of
  \<^verbatim>\<open>Cmd.Run()\<close>, and \<^verbatim>\<open>exec.LookPath\<close>.
\<close>

record Deps =
  foldTable :: "string \<Rightarrow> string \<Rightarrow> bool"
  tlsError :: "string \<Rightarrow> error option"
  transmit :: "MailYak \<Rightarrow> error option"
  encodeWord :: "string \<Rightarrow> string \<Rightarrow> string"
  encodeWordB :: "string \<Rightarrow> string \<Rightarrow> string"
  run :: "Cmd \<Rightarrow> error option"
  LookPath :: "string \<Rightarrow> error + string"

definition mailyak_New :: "string \<Rightarrow> Auth option \<Rightarrow> MailYak" where
  "mailyak_New host auth =
     \<lparr>y_host = host, y_auth = auth, y_tls = False, y_fromName = [], y_fromAddr = [],
      y_subject = [], y_html = [], y_plain = [], y_toAddrs = [], y_bccAddrs = [],
      y_ccAddrs = [], y_attachments = [], y_headers = []\<rparr>"

definition mailyak_NewWithTLS :: "Deps \<Rightarrow> string \<Rightarrow> Auth option \<Rightarrow> error + MailYak" where
  "mailyak_NewWithTLS env host auth =
     (case tlsError env host of
        Some tlsErr \<Rightarrow> Inl tlsErr
      | None \<Rightarrow> Inr ((mailyak_New host auth)\<lparr>y_tls := True\<rparr>))"

definition FromName :: "MailYak \<Rightarrow> string \<Rightarrow> MailYak" where
  "FromName yak name = yak\<lparr>y_fromName := name\<rparr>"

definition From :: "MailYak \<Rightarrow> string \<Rightarrow> MailYak" where
  "From yak addr = yak\<lparr>y_fromAddr := addr\<rparr>"

definition Subject :: "MailYak \<Rightarrow> string \<Rightarrow> MailYak" where
  "Subject yak sub = yak\<lparr>y_subject := sub\<rparr>"

definition HTML_Set :: "MailYak \<Rightarrow> string \<Rightarrow> MailYak" where
  "HTML_Set yak s = yak\<lparr>y_html := s\<rparr>"

definition Plain_Set :: "MailYak \<Rightarrow> string \<Rightarrow> MailYak" where
  "Plain_Set yak s = yak\<lparr>y_plain := s\<rparr>"

definition To :: "MailYak \<Rightarrow> string list \<Rightarrow> MailYak" where
  "To yak addrs = yak\<lparr>y_toAddrs := addrs\<rparr>"

definition Bcc :: "MailYak \<Rightarrow> string list \<Rightarrow> MailYak" where
  "Bcc yak addrs = yak\<lparr>y_bccAddrs := addrs\<rparr>"

definition Cc :: "MailYak \<Rightarrow> string list \<Rightarrow> MailYak" where
  "Cc yak addrs = yak\<lparr>y_ccAddrs := addrs\<rparr>"

definition Attach :: "MailYak \<Rightarrow> string \<Rightarrow> string \<Rightarrow> MailYak" where
  "Attach yak name data = yak\<lparr>y_attachments := y_attachments yak @ [(name, data)]\<rparr>"

definition AddHeader :: "MailYak \<Rightarrow> string \<Rightarrow> string \<Rightarrow> MailYak" where
  "AddHeader yak name value = yak\<lparr>y_headers := y_headers yak @ [(name, value)]\<rparr>"

text \<open>Lines 57 to 62 of \<^verbatim>\<open>Send\<close>: the two assignments through the pointer \<^verbatim>\<open>m\<close>.\<close>

definition fillFrom :: "SmtpClient \<Rightarrow> Message \<Rightarrow> Message" where
  "fillFrom c m =
     (let m1 = (if a_Name (m_From m) = []
                then m\<lparr>m_From := (m_From m)\<lparr>a_Name := ac_Name (sc_From c)\<rparr>\<rparr> else m)
      in (if a_Address (m_From m1) = []
          then m1\<lparr>m_From := (m_From m1)\<lparr>a_Address := ac_Address (sc_From c)\<rparr>\<rparr> else m1))"

text \<open>Lines 64 to 72: the authenticator.\<close>

definition selectAuth :: "SmtpClient \<Rightarrow> Auth option" where
  "selectAuth c =
     (if sc_Username c \<noteq> [] \<or> sc_Password c \<noteq> [] then
        (if sc_AuthMethod c = SmtpAuthLogin
         then Some (LoginAuth \<lparr>username = sc_Username c, password = sc_Password c\<rparr>)
         else Some (PlainAuth [] (sc_Username c) (sc_Password c) (sc_Host c)))
      else None)"

text \<open>Lines 74 to 84: the builder, for \<^verbatim>\<open>host:port\<close>.\<close>

definition newYak :: "Deps \<Rightarrow> SmtpClient \<Rightarrow> Auth option \<Rightarrow> error + MailYak" where
  "newYak env c smtpAuth =
     (if sc_Tls c then mailyak_NewWithTLS env (sc_Host c @ '':'' @ Itoa (sc_Port c)) smtpAuth
      else Inr (mailyak_New (sc_Host c @ '':'' @ Itoa (sc_Port c)) smtpAuth))"

text \<open>Lines 86 to 107: sender, subject, bodies and the three recipient lists.\<close>

definition setFields :: "Message \<Rightarrow> MailYak \<Rightarrow> MailYak" where
  "setFields m yak =
     (let yak1 = (if a_Name (m_From m) \<noteq> [] then FromName yak (a_Name (m_From m)) else yak);
          yak2 = From yak1 (a_Address (m_From m));
          yak3 = Subject yak2 (m_Subject m);
          yak4 = HTML_Set yak3 (m_HTML m);
          yak5 = (if m_Text m \<noteq> [] then Plain_Set yak4 (m_Text m) else yak4);
          yak6 = (if length (m_To m) > 0 then To yak5 (addressesToStrings (m_To m) True) else yak5);
          yak7 = (if length (m_Bcc m) > 0 then Bcc yak6 (addressesToStrings (m_Bcc m) True) else yak6)
      in (if length (m_Cc m) > 0 then Cc yak7 (addressesToStrings (m_Cc m) True) else yak7))"

text \<open>Lines 110 to 112: the loop over the attachments.\<close>

fun attachAll :: "MailYak \<Rightarrow> (string \<times> string) list \<Rightarrow> MailYak" where
  "attachAll yak [] = yak"
| "attachAll yak ((name, data) # rest) = attachAll (Attach yak name data) rest"

text \<open>Lines 115 to 121: the loop over the custom headers, with the flag
  \<^verbatim>\<open>hasMessageId\<close>.\<close>

fun addHeaders :: "Deps \<Rightarrow> bool \<times> MailYak \<Rightarrow> (string \<times> string) list \<Rightarrow> bool \<times> MailYak" where
  "addHeaders env (hasMessageId, yak) [] = (hasMessageId, yak)"
| "addHeaders env (hasMessageId, yak) ((k, v) # rest) =
     addHeaders env
       (if EqualFold (foldTable env) k ''Message-ID'' then True else hasMessageId,
        AddHeader yak k v)
       rest"

text \<open>Lines 122 to 131: the default message id, which draws from the generator.\<close>

definition defaultMessageId ::
  "Message \<Rightarrow> bool \<Rightarrow> MailYak \<Rightarrow> Rand \<Rightarrow> panic + (MailYak \<times> Rand)" where
  "defaultMessageId m hasMessageId yak mr =
     (if \<not> hasMessageId then
        (let fromParts = Split (a_Address (m_From m)) (CHR ''@'')
         in if length fromParts = 2 then
              (case PseudorandomString mr 15 of
                 Inl p \<Rightarrow> Inl p
               | Inr (id', mr') \<Rightarrow>
                   Inr (AddHeader yak ''Message-ID'' (''<'' @ id' @ ''@'' @ fromParts ! 1 @ ''>''),
                        mr'))
            else Inr (yak, mr))
      else Inr (yak, mr))"

text \<open>
  The outcome of \<^verbatim>\<open>SmtpClient.Send\<close>: the error it returns, the message behind the pointer
  and the generator after the call, and the builder on which \<^verbatim>\<open>Send()\<close> was called, if the
  call came that far.
\<close>

record SendResult =
  r_err :: "error option"
  r_msg :: Message
  r_rand :: Rand
  r_sent :: "MailYak option"

definition SmtpClient_Send :: "Deps \<Rightarrow> SmtpClient \<Rightarrow> Message \<Rightarrow> Rand \<Rightarrow> panic + SendResult" where
  "SmtpClient_Send env c m0 mr =
     (let m = fillFrom c m0;
          smtpAuth = selectAuth c
      in case newYak env c smtpAuth of
           Inl tlsErr \<Rightarrow> Inr \<lparr>r_err = Some tlsErr, r_msg = m, r_rand = mr, r_sent = None\<rparr>
         | Inr yak \<Rightarrow>
             (let yak1 = attachAll (setFields m yak) (m_Attachments m);
                  (hasMessageId, yak2) = addHeaders env (False, yak1) (m_Headers m)
              in case defaultMessageId m hasMessageId yak2 mr of
                   Inl p \<Rightarrow> Inl p
                 | Inr (yak3, mr') \<Rightarrow>
                     Inr \<lparr>r_err = transmit env yak3, r_msg = m, r_rand = mr',
                          r_sent = Some yak3\<rparr>))"


section \<open>The sendmail client\<close>

record SendMail =
  CmdPath :: string

text \<open>
  \<^verbatim>\<open>http.Header\<close>: a map from a key to its values, as an association list with one
  entry for a key. \<^verbatim>\<open>Set\<close> replaces the values of the key. Go stores the canonical form
  of the key; the four keys that \<^verbatim>\<open>Send\<close> sets are written in their canonical form.
\<close>

type_synonym Header = "(string \<times> string list) list"

definition Header_Set :: "Header \<Rightarrow> string \<Rightarrow> string \<Rightarrow> Header" where
  "Header_Set h key value =
     (if key \<in> fst ` set h
      then map (\<lambda>(k, vs). if k = key then (k, [value]) else (k, vs)) h
      else h @ [(key, [value])])"

text \<open>The order of Go strings: bytes compared as numbers, a proper prefix first.\<close>

fun stringLess :: "string \<Rightarrow> string \<Rightarrow> bool" where
  "stringLess [] [] = False"
| "stringLess [] (d # t) = True"
| "stringLess (c # s) [] = False"
| "stringLess (c # s) (d # t) =
     ((of_char c :: nat) < of_char d \<or> (c = d \<and> stringLess s t))"

fun insertKey :: "string \<times> string list \<Rightarrow> Header \<Rightarrow> Header" where
  "insertKey kv [] = [kv]"
| "insertKey kv (kv' # rest) =
     (if stringLess (fst kv') (fst kv) then kv' # insertKey kv rest else kv # kv' # rest)"

fun sortedKeyValues :: "Header \<Rightarrow> Header" where
  "sortedKeyValues [] = []"
| "sortedKeyValues (kv # rest) = insertKey kv (sortedKeyValues rest)"

text \<open>A header value as \<^verbatim>\<open>Header.Write\<close> writes it: every line feed and carriage return
  replaced by a space, then the white space (space, tab, line feed, carriage return) at both
  ends trimmed.\<close>

definition headerNewlineToSpace :: "string \<Rightarrow> string" where
  "headerNewlineToSpace v = map (\<lambda>c. if c = CHR 0x0A \<or> c = CHR 0x0D then CHR '' '' else c) v"

definition isASCIISpace :: "char \<Rightarrow> bool" where
  "isASCIISpace b = (b = CHR '' '' \<or> b = CHR 0x09 \<or> b = CHR 0x0A \<or> b = CHR 0x0D)"

definition TrimString :: "string \<Rightarrow> string" where
  "TrimString s = rev (dropWhile isASCIISpace (rev (dropWhile isASCIISpace s)))"

definition headerLine :: "string \<Rightarrow> string \<Rightarrow> string" where
  "headerLine k v = k @ '': '' @ TrimString (headerNewlineToSpace v) @ [CHR 0x0D, CHR 0x0A]"

text \<open>
  \<^verbatim>\<open>Header.Write\<close> into a \<^verbatim>\<open>bytes.Buffer\<close>: the keys in ascending order, one line for each
  value. Writing to a buffer returns no error; the result is the buffer and that error.
\<close>

definition Header_Write :: "Header \<Rightarrow> string \<Rightarrow> string \<times> error option" where
  "Header_Write h buffer =
     (buffer @ concat (map (\<lambda>(k, vs). concat (map (headerLine k) vs)) (sortedKeyValues h)),
      None)"

definition Buffer_Write :: "string \<Rightarrow> string \<Rightarrow> string \<times> error option" where
  "Buffer_Write buffer p = (buffer @ p, None)"

text \<open>
  \<^verbatim>\<open>mime.QEncoding.Encode(charset, s)\<close>: a string of printable ASCII bytes and tabs is
  returned as it is, every other string as the encoded word the library makes of it. The
  test ranges over runes in Go; a rune outside ASCII is above \<^verbatim>\<open>'~'\<close> and so is each of
  its bytes.
\<close>

definition needsEncoding :: "string \<Rightarrow> bool" where
  "needsEncoding s =
     list_ex (\<lambda>b. ((of_char b :: nat) < 32 \<or> 126 < (of_char b :: nat)) \<and> b \<noteq> CHR 0x09) s"

definition QEncoding_Encode :: "Deps \<Rightarrow> string \<Rightarrow> string \<Rightarrow> string" where
  "QEncoding_Encode env charset s = (if \<not> needsEncoding s then s else encodeWord env charset s)"

definition BEncoding_Encode :: "Deps \<Rightarrow> string \<Rightarrow> string \<Rightarrow> string" where
  "BEncoding_Encode env charset s = (if \<not> needsEncoding s then s else encodeWordB env charset s)"

text \<open>
  \<^verbatim>\<open>m.From.String()\<close>. The call and the fields \<^verbatim>\<open>Name\<close> and \<^verbatim>\<open>Address\<close> are those of
  \<^verbatim>\<open>mail.Address\<close> of net/mail, whose \<^verbatim>\<open>String\<close> is modelled here with the character
  classes it uses. The classes are tests on runes; a rune outside ASCII is multibyte and so
  is each of its bytes, so the tests are made on bytes.
\<close>

definition isMultibyte :: "char \<Rightarrow> bool" where
  "isMultibyte r = (128 \<le> (of_char r :: nat))"

definition isVchar :: "char \<Rightarrow> bool" where
  "isVchar r = ((33 \<le> (of_char r :: nat) \<and> (of_char r :: nat) \<le> 126) \<or> isMultibyte r)"

definition isWSP :: "char \<Rightarrow> bool" where
  "isWSP r = (r = CHR '' '' \<or> r = CHR 0x09)"

definition isQtext :: "char \<Rightarrow> bool" where
  "isQtext r = (if r = CHR 0x5C \<or> r = CHR 0x22 then False else isVchar r)"

definition isAtext :: "char \<Rightarrow> bool \<Rightarrow> bool" where
  "isAtext r dot =
     (if r = CHR ''.'' then dot
      else if r \<in> set (''()<>[]:;@,'' @ [CHR 0x5C, CHR 0x22]) then False
      else isVchar r)"

text \<open>\<^verbatim>\<open>quoteString\<close>: between double quotes, a backslash before every visible byte that
  is not quoted text, other bytes that are neither quoted text nor blank dropped. (For a
  byte that is not part of valid UTF-8 Go writes U+FFFD; the strings here are valid UTF-8.)\<close>

fun quoteBytes :: "string \<Rightarrow> string" where
  "quoteBytes [] = []"
| "quoteBytes (r # rest) =
     (if isQtext r \<or> isWSP r then r # quoteBytes rest
      else if isVchar r then CHR 0x5C # r # quoteBytes rest
      else quoteBytes rest)"

definition quoteString :: "string \<Rightarrow> string" where
  "quoteString s = CHR 0x22 # quoteBytes s @ [CHR 0x22]"

text \<open>The loop that decides whether the local part needs quotes: \<open>prev\<close> is the byte
  before the current one, if there is one. A dot is accepted between two other bytes when
  the byte before it is not a dot.\<close>

fun quoteLocal :: "char option \<Rightarrow> string \<Rightarrow> bool" where
  "quoteLocal prev [] = False"
| "quoteLocal prev (r # rest) =
     (if isAtext r False then quoteLocal (Some r) rest
      else if r = CHR ''.'' \<and> prev \<noteq> None \<and> prev \<noteq> Some (CHR ''.'') \<and> rest \<noteq> []
      then quoteLocal (Some r) rest
      else True)"

text \<open>\<^verbatim>\<open>strings.LastIndex(s, sep)\<close> for a separator of one byte; \<open>-1\<close> when there is
  none.\<close>

fun LastIndex :: "string \<Rightarrow> char \<Rightarrow> int" where
  "LastIndex [] sep = - 1"
| "LastIndex (b # bs) sep =
     (if 0 \<le> LastIndex bs sep then LastIndex bs sep + 1
      else if b = sep then 0
      else - 1)"

definition allPrintable :: "string \<Rightarrow> bool" where
  "allPrintable name = list_all (\<lambda>r. \<not> ((\<not> isVchar r \<and> \<not> isWSP r) \<or> isMultibyte r)) name"

definition ContainsAny :: "string \<Rightarrow> string \<Rightarrow> bool" where
  "ContainsAny s chars = list_ex (\<lambda>r. r \<in> set chars) s"

definition Address_String :: "Deps \<Rightarrow> Address \<Rightarrow> string" where
  "Address_String env a =
     (let at = LastIndex (a_Address a) (CHR ''@'');
          local = (if at < 0 then a_Address a else take (nat at) (a_Address a));
          domain = (if at < 0 then [] else drop (nat (at + 1)) (a_Address a));
          local = (if quoteLocal None local then quoteString local else local);
          s = ''<'' @ local @ ''@'' @ domain @ ''>''
      in if a_Name a = [] then s
         else if allPrintable (a_Name a) then quoteString (a_Name a) @ '' '' @ s
         else if ContainsAny (a_Name a)
                   ([CHR 0x22] @ ''#$%&'' @ [CHR 0x27] @ ''(),.:;<>@[]^'' @ [CHR 0x60] @ ''{|}~'')
         then BEncoding_Encode env ''utf-8'' (a_Name a) @ '' '' @ s
         else QEncoding_Encode env ''utf-8'' (a_Name a) @ '' '' @ s)"

text \<open>\<^verbatim>\<open>exec.Command(name, arg...)\<close>.\<close>

definition Command :: "string \<Rightarrow> string list \<Rightarrow> Cmd" where
  "Command name arg = \<lparr>Path = name, Args = name # arg, Stdin = []\<rparr>"

text \<open>The outcome of \<^verbatim>\<open>SendMail.Send\<close>: the error it returns and the command it ran, if
  the call came that far. The message behind the pointer is only read.\<close>

record SendMailResult =
  s_err :: "error option"
  s_cmd :: "Cmd option"

definition SendMail_Send :: "Deps \<Rightarrow> SendMail \<Rightarrow> Message \<Rightarrow> SendMailResult" where
  "SendMail_Send env c m =
     (let toAddresses = addressesToStrings (m_To m) False;
          headers = Header_Set [] ''Subject'' (QEncoding_Encode env ''utf-8'' (m_Subject m));
          headers = Header_Set headers ''From'' (Address_String env (m_From m));
          headers = Header_Set headers ''Content-Type'' ''text/html; charset=UTF-8'';
          headers = Header_Set headers ''To'' (Join toAddresses '','');
          (buffer, err) = Header_Write headers []
      in case err of
           Some e \<Rightarrow> \<lparr>s_err = Some e, s_cmd = None\<rparr>
         | None \<Rightarrow>
             (let (buffer, err) = Buffer_Write buffer [CHR 0x0D, CHR 0x0A]
              in case err of
                   Some e \<Rightarrow> \<lparr>s_err = Some e, s_cmd = None\<rparr>
                 | None \<Rightarrow>
                     (let (buffer, err) =
                            (if m_HTML m \<noteq> [] then Buffer_Write buffer (m_HTML m)
                             else Buffer_Write buffer (m_Text m))
                      in case err of
                           Some e \<Rightarrow> \<lparr>s_err = Some e, s_cmd = None\<rparr>
                         | None \<Rightarrow>
                             (let sendmail =
                                    (Command (CmdPath c) [Join toAddresses '','']) \<lparr>Stdin := buffer\<rparr>
                              in \<lparr>s_err = run env sendmail, s_cmd = Some sendmail\<rparr>))))"

text \<open>\<^verbatim>\<open>findSendmailPath\<close>: the loop over the options that are left. The second component
  lists the names given to \<^verbatim>\<open>exec.LookPath\<close>, in order.\<close>

fun lookOptions :: "Deps \<Rightarrow> string list \<Rightarrow> (error + string) \<times> string list" where
  "lookOptions env [] =
     (Inl (errors_New ''failed to locate a sendmail executable path''), [])"
| "lookOptions env (option # options) =
     (case LookPath env option of
        Inr path \<Rightarrow> (Inr path, [option])
      | Inl err \<Rightarrow> (case lookOptions env options of (r, looked) \<Rightarrow> (r, option # looked)))"

definition findSendmailPath :: "Deps \<Rightarrow> (error + string) \<times> string list" where
  "findSendmailPath env =
     lookOptions env [''/usr/sbin/sendmail'', ''/usr/bin/sendmail'', ''sendmail'']"

section \<open>The plugin (plugin.go)\<close>

text \<open>
  Modelled from the spec: the \<^verbatim>\<open>Mailer\<close> capability, one operation \<^verbatim>\<open>Send\<close> that both
  transports implement; a value of the interface is one of the two.
\<close>

datatype Mailer =
    SmtpMailer SmtpClient
  | SendMailMailer SendMail

text \<open>The \<^verbatim>\<open>Configurer\<close> interface: \<^verbatim>\<open>Has\<close>, and \<^verbatim>\<open>UnmarshalKey\<close> for each of the two
  types that \<^verbatim>\<open>Init\<close> decodes into.\<close>

record Configurer =
  Has :: "string \<Rightarrow> bool"
  UnmarshalKey_SmtpClient :: "string \<Rightarrow> error + SmtpClient"
  UnmarshalKey_SendMail :: "string \<Rightarrow> error + SendMail"

definition PluginName :: string where
  "PluginName = ''mailer''"

definition smtpKey :: string where
  "smtpKey = PluginName @ ''.smtp''"

definition sendmailKey :: string where
  "sendmailKey = PluginName @ ''.sendmail''"

record Plugin =
  mailer :: "Mailer option"

text \<open>What \<^verbatim>\<open>Init\<close> asks of its collaborators, in order: a key it decodes, a name it
  looks up.\<close>

datatype event =
    Unmarshal string
  | Look string

definition op :: string where
  "op = ''mailer_plugin_init''"

text \<open>\<^verbatim>\<open>Init\<close> returns its error; the plugin behind the pointer and the trace of the calls
  are the other two components.\<close>

definition Init :: "Deps \<Rightarrow> Plugin \<Rightarrow> Configurer \<Rightarrow> error option \<times> Plugin \<times> event list" where
  "Init env p cfg =
     (if \<not> Has cfg smtpKey \<and> \<not> Has cfg sendmailKey then (Some (E_Kind op Disabled), p, [])
      else if Has cfg smtpKey then
        (case UnmarshalKey_SmtpClient cfg smtpKey of
           Inl err \<Rightarrow> (Some (E_Err op err), p, [Unmarshal smtpKey])
         | Inr client \<Rightarrow> (None, p\<lparr>mailer := Some (SmtpMailer client)\<rparr>, [Unmarshal smtpKey]))
      else if Has cfg sendmailKey then
        (case UnmarshalKey_SendMail cfg sendmailKey of
           Inl err \<Rightarrow> (Some (E_Err op err), p, [Unmarshal sendmailKey])
         | Inr sendMail \<Rightarrow>
             (if CmdPath sendMail = [] then
                (case findSendmailPath env of
                   (Inl err, looked) \<Rightarrow>
                     (Some (E_Err op err), p, Unmarshal sendmailKey # map Look looked)
                 | (Inr cmdPath, looked) \<Rightarrow>
                     (None, p\<lparr>mailer := Some (SendMailMailer (sendMail\<lparr>CmdPath := cmdPath\<rparr>))\<rparr>,
                      Unmarshal sendmailKey # map Look looked))
              else
                (case LookPath env (CmdPath sendMail) of
                   Inl err \<Rightarrow>
                     (Some (E_Err op err), p, [Unmarshal sendmailKey, Look (CmdPath sendMail)])
                 | Inr path \<Rightarrow>
                     (None, p\<lparr>mailer := Some (SendMailMailer (sendMail\<lparr>CmdPath := path\<rparr>))\<rparr>,
                      [Unmarshal sendmailKey, Look (CmdPath sendMail)]))))
      else (Some (E_Kind op Disabled), p, []))"

section \<open>Sending through the interface\<close>

text \<open>
  \<^verbatim>\<open>Send\<close> takes a pointer to the message. The messages of a program live in a store,
  from addresses to messages; the call reads the message at its pointer and writes there
  what it assigns. A nil or dangling pointer is the address of no message. The mailers a
  program holds live in a store of their own. Both \<^verbatim>\<open>Send\<close> methods have a value
  receiver: the call works on a copy of the mailer it is made on, and the body assigns to
  no field of it, so the call writes nothing to that store.
\<close>

type_synonym store = "nat \<Rightarrow> Message option"

record world =
  messages :: store
  transports :: "nat \<Rightarrow> Mailer option"
  generator :: Rand

definition Mailer_Send ::
  "Deps \<Rightarrow> nat \<Rightarrow> nat \<Rightarrow> world \<Rightarrow> panic + (error option \<times> world)" where
  "Mailer_Send env t ptr w =
     (case transports w t of
        None \<Rightarrow> Inl NilPointerDereference
      | Some mlr \<Rightarrow>
          (case messages w ptr of
             None \<Rightarrow> Inl NilPointerDereference
           | Some m \<Rightarrow>
               (case mlr of
                  SmtpMailer c \<Rightarrow>
                    (case SmtpClient_Send env c m (generator w) of
                       Inl pnc \<Rightarrow> Inl pnc
                     | Inr res \<Rightarrow>
                         Inr (r_err res,
                              w\<lparr>messages := (messages w)(ptr \<mapsto> r_msg res),
                                generator := r_rand res\<rparr>))
                | SendMailMailer c \<Rightarrow> Inr (s_err (SendMail_Send env c m), w))))"


section \<open>Example inputs\<close>

text \<open>Collaborators that never fail, for evaluating the definitions: no Unicode folding,
  every connection and transmission succeeds, every name is found where it is.\<close>

definition exampleDeps :: Deps where
  "exampleDeps =
     \<lparr>foldTable = (\<lambda>s t. False), tlsError = (\<lambda>host. None), transmit = (\<lambda>yak. None),
      encodeWord = (\<lambda>charset s. ''=?'' @ charset @ ''?q?'' @ s @ ''?=''),
      encodeWordB = (\<lambda>charset s. ''=?'' @ charset @ ''?b?'' @ s @ ''?=''), run = (\<lambda>cmd. None),
      LookPath = (\<lambda>name. Inr name)\<rparr>"

definition exampleRand :: Rand where
  "exampleRand i = i"

definition exampleClient :: SmtpClient where
  "exampleClient =
     \<lparr>sc_Host = ''mail.example.com'', sc_Port = 587, sc_Username = ''test'',
      sc_Password = ''123456'', sc_Tls = False, sc_AuthMethod = ''LOGIN'',
      sc_From = \<lparr>ac_Name = ''Support'', ac_Address = ''support@example.com''\<rparr>\<rparr>"

definition exampleMessage :: Message where
  "exampleMessage =
     \<lparr>m_From = \<lparr>a_Name = [], a_Address = ''a@b.com''\<rparr>,
      m_To = [\<lparr>a_Name = ''Bob'', a_Address = ''bob@example.com''\<rparr>],
      m_Cc = [\<lparr>a_Name = [], a_Address = ''carol@example.com''\<rparr>],
      m_Bcc = [],
      m_Subject = ''Hi'', m_HTML = ''<p>hi</p>'', m_Text = [],
      m_Attachments = [], m_Headers = [(''X-Tag'', ''t1'')]\<rparr>"

text \<open>The builder on which \<^verbatim>\<open>Send()\<close> was called, if the call returned and came that
  far.\<close>

definition handedOver :: "panic + SendResult \<Rightarrow> MailYak option" where
  "handedOver r = (case r of Inl p \<Rightarrow> None | Inr res \<Rightarrow> r_sent res)"

text \<open>A second client, with another default from.\<close>

definition otherClient :: SmtpClient where
  "otherClient =
     exampleClient\<lparr>sc_From := \<lparr>ac_Name = ''Billing'', ac_Address = ''billing@example.com''\<rparr>\<rparr>"

text \<open>A program with two messages, the second with an empty from, and three mailers.\<close>

definition exampleWorld :: world where
  "exampleWorld =
     \<lparr>messages = [0 \<mapsto> exampleMessage,
                   1 \<mapsto> exampleMessage\<lparr>m_From := \<lparr>a_Name = [], a_Address = []\<rparr>\<rparr>],
      transports = [0 \<mapsto> SmtpMailer exampleClient,
                    1 \<mapsto> SendMailMailer \<lparr>CmdPath = ''/usr/sbin/sendmail''\<rparr>,
                    2 \<mapsto> SmtpMailer otherClient],
      generator = exampleRand\<rparr>"

text \<open>The message at a pointer after a send, if the send returned.\<close>

definition messageAfter :: "panic + (error option \<times> world) \<Rightarrow> nat \<Rightarrow> Message option" where
  "messageAfter r ptr = (case r of Inl p \<Rightarrow> None | Inr (err, w) \<Rightarrow> messages w ptr)"

text \<open>The from that a send handed to the builder, if it came that far.\<close>

definition fromHandedOver :: "panic + SendResult \<Rightarrow> (string \<times> string) option" where
  "fromHandedOver r =
     (case handedOver r of None \<Rightarrow> None | Some yak \<Rightarrow> Some (y_fromName yak, y_fromAddr yak))"



text \<open>A configuration with the sendmail key only, which gives no command path, and one
  with both keys.\<close>

definition sendmailOnly :: Configurer where
  "sendmailOnly =
     \<lparr>Has = (\<lambda>name. name = ''mailer.sendmail''),
      UnmarshalKey_SmtpClient = (\<lambda>name. Inl (errors_New ''no such key'')),
      UnmarshalKey_SendMail = (\<lambda>name. Inr \<lparr>CmdPath = []\<rparr>)\<rparr>"

definition bothKeys :: Configurer where
  "bothKeys =
     \<lparr>Has = (\<lambda>name. name = ''mailer.smtp'' \<or> name = ''mailer.sendmail''),
      UnmarshalKey_SmtpClient = (\<lambda>name. Inr exampleClient),
      UnmarshalKey_SendMail = (\<lambda>name. Inr \<lparr>CmdPath = ''/opt/bin/sendmail''\<rparr>)\<rparr>"

text \<open>A system where only \<^verbatim>\<open>/usr/bin/sendmail\<close> is found.\<close>

definition usrBinOnly :: Deps where
  "usrBinOnly =
     exampleDeps\<lparr>LookPath := (\<lambda>name. if name = ''/usr/bin/sendmail'' then Inr name
                                    else Inl (errors_New ''executable file not found''))\<rparr>"

text \<open>The comma-joined list, in the words of the specification: the first element, then
  every other element with a comma before it.\<close>

definition commaJoined :: "string list \<Rightarrow> string" where
  "commaJoined elems =
     (case elems of [] \<Rightarrow> [] | x # rest \<Rightarrow> x @ concat (map (\<lambda>y. '','' @ y) rest))"

section \<open>Properties of AUTH LOGIN\<close>

lemma toLowerASCII_eq_iff:
  assumes "\<not> isUpperASCII d"
  shows "(toLowerASCII c = d) = sameLetter c d"
proof (cases "isUpperASCII c")
  case True
  then have small: "(of_char c :: nat) + 32 < 256"
    by (simp add: isUpperASCII_def)
  have "(char_of ((of_char c :: nat) + 32) = d) = ((of_char d :: nat) = of_char c + 32)"
    using small by (auto simp add: char_of_eq_iff take_bit_eq_mod)
  moreover have "c \<noteq> d"
    using True assms by auto
  ultimately show ?thesis
    using True assms by (simp add: toLowerASCII_def sameLetter_def)
next
  case False
  then show ?thesis
    using assms by (simp add: toLowerASCII_def sameLetter_def)
qed

lemma ToLower_eq_iff:
  assumes "list_all (\<lambda>d. \<not> isUpperASCII d) t"
  shows "(ToLower p = t) = matchesIgnoringCase p t"
  using assms
proof (induction p arbitrary: t)
  case Nil
  then show ?case
    by (auto simp add: ToLower_def matchesIgnoringCase_def)
next
  case (Cons c p)
  show ?case
  proof (cases t)
    case Nil
    then show ?thesis
      by (simp add: ToLower_def matchesIgnoringCase_def)
  next
    case (Cons d t')
    with Cons.prems have d: "\<not> isUpperASCII d" and t': "list_all (\<lambda>d. \<not> isUpperASCII d) t'"
      by simp_all
    from Cons.IH [OF t'] have "(map toLowerASCII p = t') = list_all2 sameLetter p t'"
      by (simp add: ToLower_def matchesIgnoringCase_def)
    then show ?thesis
      using Cons toLowerASCII_eq_iff [OF d, of c]
      by (simp add: ToLower_def matchesIgnoringCase_def)
  qed
qed

lemma lower_username: "list_all (\<lambda>d. \<not> isUpperASCII d) ''username:''"
  by (simp add: isUpperASCII_def)

lemma lower_password: "list_all (\<lambda>d. \<not> isUpperASCII d) ''password:''"
  by (simp add: isUpperASCII_def)

lemma not_both_prompts:
  "\<not> (matchesIgnoringCase p ''username:'' \<and> matchesIgnoringCase p ''password:'')"
  using ToLower_eq_iff [OF lower_username, of p] ToLower_eq_iff [OF lower_password, of p]
  by auto

text \<open>
  C1. \<^verbatim>\<open>smtpLoginAuth.Start\<close> returns an error exactly when the connection has no TLS and
  the server name is none of \<^verbatim>\<open>localhost\<close>, \<^verbatim>\<open>127.0.0.1\<close>, \<^verbatim>\<open>::1\<close>; with the error it
  returns the empty mechanism name and no payload (no credential), and without an error it
  returns the mechanism \<^verbatim>\<open>LOGIN\<close> with an empty initial payload.
\<close>

theorem Start_gate:
  "((snd (snd (Start a server)) \<noteq> None) =
      (\<not> si_TLS server \<and> si_Name server \<notin> {''localhost'', ''127.0.0.1'', ''::1''}))
   \<and> (snd (snd (Start a server)) \<noteq> None \<longrightarrow>
      fst (Start a server) = '''' \<and> fst (snd (Start a server)) = None)
   \<and> (snd (snd (Start a server)) = None \<longrightarrow>
      fst (Start a server) = ''LOGIN'' \<and> fst (snd (Start a server)) = None)"
  by (simp add: Start_def isLocalhost_def)

theorem Start_gate_witness:
  "Start \<lparr>username = ''test'', password = ''123456''\<rparr>
         \<lparr>si_Name = ''example.com'', si_TLS = False, si_Auth = []\<rparr>
     = ('''', None, Some (errors_New ''unencrypted connection''))
   \<and> Start \<lparr>username = ''test'', password = ''123456''\<rparr>
         \<lparr>si_Name = ''example.com'', si_TLS = True, si_Auth = []\<rparr>
     = (''LOGIN'', None, None)
   \<and> Start \<lparr>username = ''test'', password = ''123456''\<rparr>
         \<lparr>si_Name = ''::1'', si_TLS = False, si_Auth = []\<rparr>
     = (''LOGIN'', None, None)"
proof -
  let ?a = "\<lparr>username = ''test'', password = ''123456''\<rparr>"
  let ?s1 = "\<lparr>si_Name = ''example.com'', si_TLS = False, si_Auth = []\<rparr>"
  let ?s2 = "\<lparr>si_Name = ''example.com'', si_TLS = True, si_Auth = []\<rparr>"
  let ?s3 = "\<lparr>si_Name = ''::1'', si_TLS = False, si_Auth = []\<rparr>"
  have e1: "snd (snd (Start ?a ?s1)) = Some (errors_New ''unencrypted connection'')"
    by (simp add: Start_def isLocalhost_def)
  show ?thesis
    using Start_gate [of ?a ?s1] Start_gate [of ?a ?s2] Start_gate [of ?a ?s3] e1
    by (simp add: prod_eq_iff)
qed

text \<open>
  C2. For every challenge \<open>p\<close> and flag \<^verbatim>\<open>more\<close>, \<^verbatim>\<open>smtpLoginAuth.Next\<close> returns the
  configured username when \<^verbatim>\<open>more\<close> holds and \<open>p\<close> is \<^verbatim>\<open>username:\<close> in any letter case,
  the configured password when \<^verbatim>\<open>more\<close> holds and \<open>p\<close> is \<^verbatim>\<open>password:\<close> in any letter
  case, and the empty (nil) response in every other case; it never returns an error.
\<close>

theorem Next_response:
  "Next a p more' =
     (if more' \<and> matchesIgnoringCase p ''username:'' then (Some (username a), None)
      else if more' \<and> matchesIgnoringCase p ''password:'' then (Some (password a), None)
      else (None, None))
   \<and> snd (Next a p more') = None"
  by (simp add: Next_def ToLower_eq_iff [OF lower_username] ToLower_eq_iff [OF lower_password])

theorem Next_response_witness:
  "Next \<lparr>username = ''test'', password = ''123456''\<rparr> ''uSeRnAmE:'' True = (Some ''test'', None)
   \<and> Next \<lparr>username = ''test'', password = ''123456''\<rparr> ''pAsSwOrD:'' True = (Some ''123456'', None)
   \<and> Next \<lparr>username = ''test'', password = ''123456''\<rparr> ''username:'' False = (None, None)
   \<and> Next \<lparr>username = ''test'', password = ''123456''\<rparr> ''example:'' True = (None, None)"
proof -
  have u: "matchesIgnoringCase ''uSeRnAmE:'' ''username:''"
    by (simp add: matchesIgnoringCase_def sameLetter_def isUpperASCII_def)
  have p: "matchesIgnoringCase ''pAsSwOrD:'' ''password:''"
    by (simp add: matchesIgnoringCase_def sameLetter_def isUpperASCII_def)
  have np: "\<not> matchesIgnoringCase ''pAsSwOrD:'' ''username:''"
    by (simp add: matchesIgnoringCase_def sameLetter_def isUpperASCII_def)
  have x1: "\<not> matchesIgnoringCase ''example:'' ''username:''"
    by (simp add: matchesIgnoringCase_def)
  have x2: "\<not> matchesIgnoringCase ''example:'' ''password:''"
    by (simp add: matchesIgnoringCase_def)
  show ?thesis
    using Next_response [of "\<lparr>username = ''test'', password = ''123456''\<rparr>" "''uSeRnAmE:''" True]
      Next_response [of "\<lparr>username = ''test'', password = ''123456''\<rparr>" "''pAsSwOrD:''" True]
      Next_response [of "\<lparr>username = ''test'', password = ''123456''\<rparr>" "''username:''" False]
      Next_response [of "\<lparr>username = ''test'', password = ''123456''\<rparr>" "''example:''" True]
      u p np x1 x2
    by simp
qed


section \<open>Properties of the pseudorandom strings\<close>

lemma fillBytes_ok:
  assumes "alphabet \<noteq> []"
  shows "\<exists>s mr'. fillBytes mr alphabet (int (length alphabet)) k = Inr (s, mr')
           \<and> length s = k \<and> set s \<subseteq> set alphabet"
proof (induction k arbitrary: mr)
  case 0
  show ?case by simp
next
  case (Suc k)
  let ?m = "int (length alphabet)"
  let ?j = "int (mr 0) mod ?m"
  have pos: "0 < ?m" using assms by simp
  have j: "0 \<le> ?j" "?j < ?m" using pos by simp_all
  have I: "Intn mr ?m = Inr (?j, (\<lambda>i. mr (Suc i)))"
    using pos by (simp add: Intn_def)
  have X: "index alphabet ?j = Inr (alphabet ! nat ?j)"
    using j by (simp add: index_def)
  have mem: "alphabet ! nat ?j \<in> set alphabet"
    using j by (simp add: nat_less_iff)
  from Suc.IH [of "\<lambda>i. mr (Suc i)"] obtain s mr' where
    r: "fillBytes (\<lambda>i. mr (Suc i)) alphabet ?m k = Inr (s, mr')" and
    l: "length s = k" and m: "set s \<subseteq> set alphabet"
    by blast
  have "fillBytes mr alphabet ?m (Suc k) = Inr (alphabet ! nat ?j # s, mr')"
    by (simp add: I X r)
  then show ?case
    using l m mem by simp
qed

lemma alphabet_62: "length defaultRandomAlphabet = 62 \<and> distinct defaultRandomAlphabet"
  by (simp add: defaultRandomAlphabet_def)

lemma PseudorandomStringWithAlphabet_ok:
  assumes "0 \<le> n" and "A \<noteq> []"
  shows "\<exists>s mr'. PseudorandomStringWithAlphabet mr n A = Inr (s, mr')
           \<and> int (length s) = n \<and> set s \<subseteq> set A"
  using fillBytes_ok [OF assms(2), of mr "nat n"] assms(1)
  by (auto simp add: PseudorandomStringWithAlphabet_def)

lemma PseudorandomString_15:
  "\<exists>s mr'. PseudorandomString mr 15 = Inr (s, mr')
           \<and> length s = 15 \<and> set s \<subseteq> set defaultRandomAlphabet"
proof -
  have "defaultRandomAlphabet \<noteq> []"
    by (simp add: defaultRandomAlphabet_def)
  from PseudorandomStringWithAlphabet_ok [OF _ this, of 15 mr]
  show ?thesis
    by (auto simp add: PseudorandomString_def)
qed

text \<open>
  C8. For every length \<open>n \<ge> 0\<close> and every non-empty alphabet \<open>A\<close>,
  \<^verbatim>\<open>PseudorandomStringWithAlphabet(n, A)\<close> returns, without a panic, a string of exactly
  \<open>n\<close> bytes, each of them a byte of \<open>A\<close>; \<^verbatim>\<open>PseudorandomString(n)\<close> is the same
  call with the default alphabet, which has 62 distinct symbols.
\<close>

theorem PseudorandomString_shape:
  "(0 \<le> n \<and> A \<noteq> [] \<longrightarrow>
      (\<exists>s mr'. PseudorandomStringWithAlphabet mr n A = Inr (s, mr')
         \<and> int (length s) = n \<and> set s \<subseteq> set A))
   \<and> PseudorandomString mr n = PseudorandomStringWithAlphabet mr n defaultRandomAlphabet
   \<and> length defaultRandomAlphabet = 62 \<and> distinct defaultRandomAlphabet"
  using PseudorandomStringWithAlphabet_ok [of n A mr] alphabet_62
  by (simp add: PseudorandomString_def)

theorem PseudorandomString_shape_witness:
  "(0::int) \<le> 3 \<and> ''abc'' \<noteq> []
   \<and> (\<exists>s mr'. PseudorandomStringWithAlphabet (\<lambda>i. 2 * i + 1) 3 ''abc'' = Inr (s, mr')
         \<and> int (length s) = 3 \<and> set s \<subseteq> set ''abc'')
   \<and> map_sum id fst (PseudorandomStringWithAlphabet (\<lambda>i. 2 * i + 1) 3 ''abc'') = Inr ''bac''
   \<and> map_sum id fst (PseudorandomString (\<lambda>i. 7 * i + 3) 15) = Inr ''DKRYfmt07ELSZgn''"
proof -
  have a: "map_sum id fst (PseudorandomStringWithAlphabet (\<lambda>i. 2 * i + 1) 3 ''abc'') = Inr ''bac''"
    by code_simp
  have b: "map_sum id fst (PseudorandomString (\<lambda>i. 7 * i + 3) 15) = Inr ''DKRYfmt07ELSZgn''"
    by code_simp
  show ?thesis
    using PseudorandomString_shape [of 3 "''abc''" "\<lambda>i. 2 * i + 1"] a b by simp
qed

subsection \<open>Split\<close>

lemma Split_not_Nil: "Split s sep \<noteq> []"
  by (induction s) (auto split: list.splits)

lemma length_Split: "length (Split s sep) = Suc (count_list s sep)"
proof (induction s)
  case Nil
  show ?case by simp
next
  case (Cons c cs)
  then show ?case
    using Split_not_Nil [of cs sep] by (cases "Split cs sep") auto
qed

lemma Split_none: "sep \<notin> set s \<Longrightarrow> Split s sep = [s]"
  by (induction s) auto

lemma Split_two:
  assumes "Split s sep = [a, b]"
  shows "s = a @ [sep] @ b \<and> sep \<notin> set a \<and> sep \<notin> set b"
  using assms
proof (induction s arbitrary: a)
  case Nil
  then show ?case by simp
next
  case (Cons c cs)
  show ?case
  proof (cases "c = sep")
    case True
    with Cons.prems have a: "a = []" and b: "Split cs sep = [b]"
      by simp_all
    from b have "count_list cs sep = 0"
      using length_Split [of cs sep] by simp
    then have nb: "sep \<notin> set cs"
      by (simp add: count_list_0_iff)
    have "cs = b"
      using b Split_none [OF nb] by simp
    then show ?thesis
      using True a nb by simp
  next
    case False
    with Cons.prems obtain p where p: "Split cs sep = [p, b]" and a: "a = c # p"
      by (cases "Split cs sep") (auto split: list.splits)
    from Cons.IH [OF p] show ?thesis
      using False a by simp
  qed
qed


section \<open>Properties of the SMTP client\<close>

subsection \<open>The builder after each part of Send\<close>

lemma attachAll_eq: "attachAll yak xs = yak\<lparr>y_attachments := y_attachments yak @ xs\<rparr>"
  by (induction yak xs rule: attachAll.induct) (simp_all add: Attach_def)

lemma addHeaders_eq:
  "addHeaders env (h, yak) hs =
     (h \<or> list_ex (\<lambda>kv. EqualFold (foldTable env) (fst kv) ''Message-ID'') hs,
      yak\<lparr>y_headers := y_headers yak @ hs\<rparr>)"
proof (induction hs arbitrary: h yak)
  case Nil
  show ?case by simp
next
  case (Cons kv hs)
  obtain k v where kv: "kv = (k, v)"
    by (cases kv)
  show ?case
    unfolding kv by (simp add: Cons.IH AddHeader_def)
qed

lemma fillFrom_From:
  "m_From (fillFrom c m) =
     \<lparr>a_Name = (if a_Name (m_From m) \<noteq> [] then a_Name (m_From m) else ac_Name (sc_From c)),
      a_Address = (if a_Address (m_From m) \<noteq> [] then a_Address (m_From m)
                   else ac_Address (sc_From c))\<rparr>"
  by (simp add: fillFrom_def Let_def)

lemma fillFrom_frame: "fillFrom c m = m\<lparr>m_From := m_From (fillFrom c m)\<rparr>"
  by (simp add: fillFrom_def Let_def)

lemma fillFrom_fields:
  "m_To (fillFrom c m) = m_To m" "m_Cc (fillFrom c m) = m_Cc m" "m_Bcc (fillFrom c m) = m_Bcc m"
  "m_Subject (fillFrom c m) = m_Subject m" "m_HTML (fillFrom c m) = m_HTML m"
  "m_Text (fillFrom c m) = m_Text m" "m_Attachments (fillFrom c m) = m_Attachments m"
  "m_Headers (fillFrom c m) = m_Headers m"
  by (simp_all add: fillFrom_def Let_def)

lemma newYak_fields:
  assumes "newYak env c auth = Inr yak"
  shows "y_fromName yak = [] \<and> y_fromAddr yak = [] \<and> y_toAddrs yak = [] \<and> y_bccAddrs yak = []
    \<and> y_ccAddrs yak = [] \<and> y_attachments yak = [] \<and> y_headers yak = []"
  using assms
  by (auto simp add: newYak_def mailyak_NewWithTLS_def mailyak_New_def
      split: if_splits option.splits)

lemma setFields_sender:
  assumes "y_fromName yak = []"
  shows "y_fromName (setFields m yak) = a_Name (m_From m)"
    and "y_fromAddr (setFields m yak) = a_Address (m_From m)"
  using assms
  by (simp_all add: setFields_def Let_def FromName_def From_def Subject_def HTML_Set_def
      Plain_Set_def To_def Bcc_def Cc_def)

lemma setFields_recipients:
  assumes "y_toAddrs yak = []" and "y_bccAddrs yak = []" and "y_ccAddrs yak = []"
  shows "y_toAddrs (setFields m yak) = addressesToStrings (m_To m) True"
    and "y_bccAddrs (setFields m yak) = addressesToStrings (m_Bcc m) True"
    and "y_ccAddrs (setFields m yak) = addressesToStrings (m_Cc m) True"
  using assms
  by (simp_all add: setFields_def Let_def FromName_def From_def Subject_def HTML_Set_def
      Plain_Set_def To_def Bcc_def Cc_def addressesToStrings_def)

lemma setFields_lists:
  "y_attachments (setFields m yak) = y_attachments yak"
  "y_headers (setFields m yak) = y_headers yak"
  by (simp_all add: setFields_def Let_def FromName_def From_def Subject_def HTML_Set_def
      Plain_Set_def To_def Bcc_def Cc_def)

text \<open>The default message id never panics: it asks for 15 bytes of a non-empty alphabet.\<close>

lemma defaultMessageId_cases:
  "\<exists>extra mr'. defaultMessageId m h yak mr = Inr (yak\<lparr>y_headers := y_headers yak @ extra\<rparr>, mr')
     \<and> (if \<not> h \<and> count_list (a_Address (m_From m)) (CHR ''@'') = 1
         then \<exists>id' local domain.
                a_Address (m_From m) = local @ ''@'' @ domain
                \<and> CHR ''@'' \<notin> set local \<and> CHR ''@'' \<notin> set domain
                \<and> length id' = 15 \<and> set id' \<subseteq> set defaultRandomAlphabet
                \<and> extra = [(''Message-ID'', ''<'' @ id' @ ''@'' @ domain @ ''>'')]
         else extra = [] \<and> mr' = mr)"
proof (cases "\<not> h \<and> count_list (a_Address (m_From m)) (CHR ''@'') = 1")
  case True
  then have len: "length (Split (a_Address (m_From m)) (CHR ''@'')) = 2"
    by (simp add: length_Split)
  then obtain local domain where parts: "Split (a_Address (m_From m)) (CHR ''@'') = [local, domain]"
    by (cases "Split (a_Address (m_From m)) (CHR ''@'')" rule: list.exhaust)
       (auto simp add: length_Suc_conv)
  from Split_two [OF parts] have addr: "a_Address (m_From m) = local @ ''@'' @ domain"
    and nl: "CHR ''@'' \<notin> set local" and nd: "CHR ''@'' \<notin> set domain"
    by simp_all
  obtain id' mr' where ps: "PseudorandomString mr 15 = Inr (id', mr')"
    and l: "length id' = 15" and a: "set id' \<subseteq> set defaultRandomAlphabet"
    using PseudorandomString_15 [of mr] by blast
  have "defaultMessageId m h yak mr =
          Inr (yak\<lparr>y_headers := y_headers yak @ [(''Message-ID'', ''<'' @ id' @ ''@'' @ domain @ ''>'')]\<rparr>, mr')"
    using True parts ps by (simp add: defaultMessageId_def AddHeader_def)
  then show ?thesis
    using True addr nl nd l a by auto
next
  case False
  then have "h \<or> length (Split (a_Address (m_From m)) (CHR ''@'')) \<noteq> 2"
    by (auto simp add: length_Split)
  then have "defaultMessageId m h yak mr = Inr (yak, mr)"
    by (auto simp add: defaultMessageId_def Let_def)
  then show ?thesis
    using False by (intro exI [of _ "[]"] exI [of _ mr]) simp
qed

text \<open>What Send returns when the builder could be made.\<close>

lemma Send_early:
  assumes "newYak env c (selectAuth c) = Inl tlsErr"
  shows "SmtpClient_Send env c m mr =
           Inr \<lparr>r_err = Some tlsErr, r_msg = fillFrom c m, r_rand = mr, r_sent = None\<rparr>"
  using assms by (simp add: SmtpClient_Send_def)

lemma Send_built:
  assumes "newYak env c (selectAuth c) = Inr yak"
  shows "\<exists>extra mr'.
     SmtpClient_Send env c m mr =
       Inr \<lparr>r_err = transmit env ((setFields (fillFrom c m) yak)
                       \<lparr>y_attachments := m_Attachments m, y_headers := m_Headers m @ extra\<rparr>),
            r_msg = fillFrom c m, r_rand = mr',
            r_sent = Some ((setFields (fillFrom c m) yak)
                       \<lparr>y_attachments := m_Attachments m, y_headers := m_Headers m @ extra\<rparr>)\<rparr>
     \<and> (if \<not> list_ex (\<lambda>kv. EqualFold (foldTable env) (fst kv) ''Message-ID'') (m_Headers m)
            \<and> count_list (a_Address (m_From (fillFrom c m))) (CHR ''@'') = 1
         then \<exists>id' local domain.
                a_Address (m_From (fillFrom c m)) = local @ ''@'' @ domain
                \<and> CHR ''@'' \<notin> set local \<and> CHR ''@'' \<notin> set domain
                \<and> length id' = 15 \<and> set id' \<subseteq> set defaultRandomAlphabet
                \<and> extra = [(''Message-ID'', ''<'' @ id' @ ''@'' @ domain @ ''>'')]
         else extra = [] \<and> mr' = mr)"
proof -
  let ?m = "fillFrom c m"
  let ?h = "list_ex (\<lambda>kv. EqualFold (foldTable env) (fst kv) ''Message-ID'') (m_Headers m)"
  let ?yak1 = "attachAll (setFields ?m yak) (m_Attachments ?m)"
  let ?yak2 = "?yak1\<lparr>y_headers := y_headers ?yak1 @ m_Headers m\<rparr>"
  have empty: "y_attachments yak = []" "y_headers yak = []"
    using newYak_fields [OF assms] by simp_all
  have ah: "addHeaders env (False, ?yak1) (m_Headers ?m) = (?h, ?yak2)"
    by (simp add: addHeaders_eq fillFrom_fields)
  obtain extra mr' where
    d: "defaultMessageId ?m ?h ?yak2 mr = Inr (?yak2\<lparr>y_headers := y_headers ?yak2 @ extra\<rparr>, mr')"
    and e: "if \<not> ?h \<and> count_list (a_Address (m_From ?m)) (CHR ''@'') = 1
         then \<exists>id' local domain.
                a_Address (m_From ?m) = local @ ''@'' @ domain
                \<and> CHR ''@'' \<notin> set local \<and> CHR ''@'' \<notin> set domain
                \<and> length id' = 15 \<and> set id' \<subseteq> set defaultRandomAlphabet
                \<and> extra = [(''Message-ID'', ''<'' @ id' @ ''@'' @ domain @ ''>'')]
         else extra = [] \<and> mr' = mr"
    using defaultMessageId_cases [of ?m ?h ?yak2 mr] by blast
  have y: "?yak2\<lparr>y_headers := y_headers ?yak2 @ extra\<rparr> =
        (setFields ?m yak)\<lparr>y_attachments := m_Attachments m, y_headers := m_Headers m @ extra\<rparr>"
    by (simp add: attachAll_eq setFields_lists empty fillFrom_fields)
  have "SmtpClient_Send env c m mr =
       Inr \<lparr>r_err = transmit env (?yak2\<lparr>y_headers := y_headers ?yak2 @ extra\<rparr>),
            r_msg = ?m, r_rand = mr',
            r_sent = Some (?yak2\<lparr>y_headers := y_headers ?yak2 @ extra\<rparr>)\<rparr>"
    using assms ah d by (simp add: SmtpClient_Send_def Let_def)
  then show ?thesis
    using e unfolding y by blast
qed

lemma Send_total: "\<exists>res. SmtpClient_Send env c m mr = Inr res \<and> r_msg res = fillFrom c m"
proof (cases "newYak env c (selectAuth c)")
  case (Inl tlsErr)
  from Send_early [OF this] show ?thesis by simp
next
  case (Inr yak)
  from Send_built [OF this, of m mr] show ?thesis by auto
qed


lemma sameLetter_iff: "sameLetter c d = (toLowerASCII c = toLowerASCII d)"
proof -
  have inj: "(char_of ((of_char c :: nat) + 32) = char_of ((of_char d :: nat) + 32)) = (c = d)"
    if "isUpperASCII c" and "isUpperASCII d"
  proof -
    have "(of_char c :: nat) + 32 < 256" "(of_char d :: nat) + 32 < 256"
      using that by (simp_all add: isUpperASCII_def)
    then show ?thesis
      by (auto simp add: char_of_eq_iff take_bit_eq_mod)
  qed
  have one: "(char_of ((of_char c :: nat) + 32) = d) = ((of_char d :: nat) = of_char c + 32)"
    if "isUpperASCII c" for c d
  proof -
    have "(of_char c :: nat) + 32 < 256"
      using that by (simp add: isUpperASCII_def)
    then show ?thesis
      by (auto simp add: char_of_eq_iff take_bit_eq_mod)
  qed
  show ?thesis
  proof (cases "isUpperASCII c"; cases "isUpperASCII d")
    assume "isUpperASCII c" "isUpperASCII d"
    then show ?thesis
      using inj by (auto simp add: sameLetter_def toLowerASCII_def isUpperASCII_def)
  next
    assume "isUpperASCII c" "\<not> isUpperASCII d"
    then show ?thesis
      using one [of c d] by (auto simp add: sameLetter_def toLowerASCII_def)
  next
    assume "\<not> isUpperASCII c" "isUpperASCII d"
    then show ?thesis
      using one [of d c] by (auto simp add: sameLetter_def toLowerASCII_def)
  next
    assume "\<not> isUpperASCII c" "\<not> isUpperASCII d"
    then show ?thesis
      by (auto simp add: sameLetter_def toLowerASCII_def)
  qed
qed

lemma matchesIgnoringCase_iff: "matchesIgnoringCase p t = (ToLower p = ToLower t)"
  unfolding matchesIgnoringCase_def ToLower_def
  by (induction p arbitrary: t) (auto simp add: sameLetter_iff list_all2_Cons1)

lemma EqualFold_ASCII:
  "isASCII k \<Longrightarrow> isASCII t \<Longrightarrow> EqualFold ft k t = matchesIgnoringCase k t"
  by (simp add: EqualFold_def matchesIgnoringCase_iff)

text \<open>
  C4. \<^verbatim>\<open>SmtpClient.Send\<close> returns (it never panics), and the from it has used, which is
  what the message behind the pointer then holds and what the builder was given when one
  was made, has the name of the message when that is not empty and the name of the
  client's configuration otherwise, and likewise the address: a non-empty field of the
  message is never overwritten.
\<close>

theorem effective_from:
  "\<exists>res. SmtpClient_Send env c m mr = Inr res
     \<and> a_Name (m_From (r_msg res)) =
         (if a_Name (m_From m) \<noteq> [] then a_Name (m_From m) else ac_Name (sc_From c))
     \<and> a_Address (m_From (r_msg res)) =
         (if a_Address (m_From m) \<noteq> [] then a_Address (m_From m) else ac_Address (sc_From c))
     \<and> (\<forall>yak. r_sent res = Some yak \<longrightarrow>
           y_fromName yak = a_Name (m_From (r_msg res))
           \<and> y_fromAddr yak = a_Address (m_From (r_msg res)))"
proof (cases "newYak env c (selectAuth c)")
  case (Inl tlsErr)
  from Send_early [OF this, of m mr] show ?thesis
    by (simp add: fillFrom_From)
next
  case (Inr yak)
  have n: "y_fromName yak = []"
    using newYak_fields [OF Inr] by simp
  from Send_built [OF Inr, of m mr] obtain extra mr' where
    "SmtpClient_Send env c m mr =
       Inr \<lparr>r_err = transmit env ((setFields (fillFrom c m) yak)
                       \<lparr>y_attachments := m_Attachments m, y_headers := m_Headers m @ extra\<rparr>),
            r_msg = fillFrom c m, r_rand = mr',
            r_sent = Some ((setFields (fillFrom c m) yak)
                       \<lparr>y_attachments := m_Attachments m, y_headers := m_Headers m @ extra\<rparr>)\<rparr>"
    by blast
  then show ?thesis
    by (simp add: fillFrom_From setFields_sender [OF n])
qed

theorem effective_from_witness:
  "\<exists>res. SmtpClient_Send exampleDeps exampleClient exampleMessage exampleRand = Inr res
     \<and> m_From (r_msg res) = \<lparr>a_Name = ''Support'', a_Address = ''a@b.com''\<rparr>
     \<and> map_option y_fromName (r_sent res) = Some ''Support''
     \<and> map_option y_fromAddr (r_sent res) = Some ''a@b.com''"
proof -
  from effective_from [of exampleDeps exampleClient exampleMessage exampleRand]
  obtain res where r: "SmtpClient_Send exampleDeps exampleClient exampleMessage exampleRand = Inr res"
    and n: "a_Name (m_From (r_msg res)) = ''Support''"
    and a: "a_Address (m_From (r_msg res)) = ''a@b.com''"
    and y: "\<forall>yak. r_sent res = Some yak \<longrightarrow>
           y_fromName yak = a_Name (m_From (r_msg res))
           \<and> y_fromAddr yak = a_Address (m_From (r_msg res))"
    by (auto simp add: exampleClient_def exampleMessage_def)
  have "newYak exampleDeps exampleClient (selectAuth exampleClient) =
          Inr (mailyak_New (sc_Host exampleClient @ '':'' @ Itoa (sc_Port exampleClient))
                 (selectAuth exampleClient))"
    by (simp add: newYak_def exampleClient_def)
  from Send_built [OF this, of exampleMessage exampleRand] r
  obtain yak where s: "r_sent res = Some yak"
    by auto
  have "m_From (r_msg res) = \<lparr>a_Name = ''Support'', a_Address = ''a@b.com''\<rparr>"
    using n a by (cases "m_From (r_msg res)") simp
  then show ?thesis
    using r s y n a by simp
qed


lemma Send_sent_cases:
  assumes "SmtpClient_Send env c m mr = Inr res" and "r_sent res = Some yak"
  shows "\<exists>yak0 extra mr'.
     newYak env c (selectAuth c) = Inr yak0
     \<and> r_msg res = fillFrom c m
     \<and> r_rand res = mr'
     \<and> yak = (setFields (fillFrom c m) yak0)
                 \<lparr>y_attachments := m_Attachments m, y_headers := m_Headers m @ extra\<rparr>
     \<and> (if \<not> list_ex (\<lambda>kv. EqualFold (foldTable env) (fst kv) ''Message-ID'') (m_Headers m)
            \<and> count_list (a_Address (m_From (fillFrom c m))) (CHR ''@'') = 1
         then \<exists>id' local domain.
                a_Address (m_From (fillFrom c m)) = local @ ''@'' @ domain
                \<and> CHR ''@'' \<notin> set local \<and> CHR ''@'' \<notin> set domain
                \<and> length id' = 15 \<and> set id' \<subseteq> set defaultRandomAlphabet
                \<and> extra = [(''Message-ID'', ''<'' @ id' @ ''@'' @ domain @ ''>'')]
         else extra = [] \<and> mr' = mr)"
proof (cases "newYak env c (selectAuth c)")
  case (Inl tlsErr)
  from Send_early [OF this, of m mr] assms show ?thesis
    by simp
next
  case (Inr yak0)
  from Send_built [OF this, of m mr] obtain extra mr' where
    s: "SmtpClient_Send env c m mr =
       Inr \<lparr>r_err = transmit env ((setFields (fillFrom c m) yak0)
                       \<lparr>y_attachments := m_Attachments m, y_headers := m_Headers m @ extra\<rparr>),
            r_msg = fillFrom c m, r_rand = mr',
            r_sent = Some ((setFields (fillFrom c m) yak0)
                       \<lparr>y_attachments := m_Attachments m, y_headers := m_Headers m @ extra\<rparr>)\<rparr>"
    and e: "if \<not> list_ex (\<lambda>kv. EqualFold (foldTable env) (fst kv) ''Message-ID'') (m_Headers m)
            \<and> count_list (a_Address (m_From (fillFrom c m))) (CHR ''@'') = 1
         then \<exists>id' local domain.
                a_Address (m_From (fillFrom c m)) = local @ ''@'' @ domain
                \<and> CHR ''@'' \<notin> set local \<and> CHR ''@'' \<notin> set domain
                \<and> length id' = 15 \<and> set id' \<subseteq> set defaultRandomAlphabet
                \<and> extra = [(''Message-ID'', ''<'' @ id' @ ''@'' @ domain @ ''>'')]
         else extra = [] \<and> mr' = mr"
    by blast
  from s assms have
    "r_msg res = fillFrom c m" "r_rand res = mr'"
    "yak = (setFields (fillFrom c m) yak0)
                 \<lparr>y_attachments := m_Attachments m, y_headers := m_Headers m @ extra\<rparr>"
    by auto
  with Inr e show ?thesis
    by (intro exI [of _ yak0] exI [of _ extra] exI [of _ mr']) simp
qed

text \<open>
  C3. When \<^verbatim>\<open>SmtpClient.Send\<close> comes to call \<^verbatim>\<open>Send()\<close> on the builder, the headers it
  has added are the supplied headers, followed by one \<^verbatim>\<open>Message-ID\<close> header of the form
  \<^verbatim>\<open><\<close> + 15 generated bytes + \<^verbatim>\<open>@\<close> + domain + \<^verbatim>\<open>>\<close> exactly when no supplied key
  equals \<^verbatim>\<open>Message-ID\<close> under case folding and the effective from address has exactly one
  \<^verbatim>\<open>@\<close>, the domain being what follows it; in every other case nothing is added. For a
  key of ASCII bytes, equality under case folding is equality up to letter case.
\<close>

theorem default_message_id:
  assumes "SmtpClient_Send env c m mr = Inr res" and "r_sent res = Some yak"
  shows "(if \<not> list_ex (\<lambda>kv. EqualFold (foldTable env) (fst kv) ''Message-ID'') (m_Headers m)
            \<and> count_list (a_Address (m_From (r_msg res))) (CHR ''@'') = 1
          then \<exists>id' local domain.
                 a_Address (m_From (r_msg res)) = local @ ''@'' @ domain
                 \<and> CHR ''@'' \<notin> set local \<and> CHR ''@'' \<notin> set domain
                 \<and> length id' = 15 \<and> set id' \<subseteq> set defaultRandomAlphabet
                 \<and> y_headers yak = m_Headers m @ [(''Message-ID'', ''<'' @ id' @ ''@'' @ domain @ ''>'')]
          else y_headers yak = m_Headers m)
     \<and> a_Address (m_From (r_msg res)) =
         (if a_Address (m_From m) \<noteq> [] then a_Address (m_From m) else ac_Address (sc_From c))
     \<and> (\<forall>k. isASCII k \<longrightarrow>
           EqualFold (foldTable env) k ''Message-ID'' = matchesIgnoringCase k ''Message-ID'')"
proof -
  from Send_sent_cases [OF assms] obtain yak0 extra mr' where
    m: "r_msg res = fillFrom c m" and
    y: "yak = (setFields (fillFrom c m) yak0)
                 \<lparr>y_attachments := m_Attachments m, y_headers := m_Headers m @ extra\<rparr>" and
    e: "if \<not> list_ex (\<lambda>kv. EqualFold (foldTable env) (fst kv) ''Message-ID'') (m_Headers m)
            \<and> count_list (a_Address (m_From (fillFrom c m))) (CHR ''@'') = 1
         then \<exists>id' local domain.
                a_Address (m_From (fillFrom c m)) = local @ ''@'' @ domain
                \<and> CHR ''@'' \<notin> set local \<and> CHR ''@'' \<notin> set domain
                \<and> length id' = 15 \<and> set id' \<subseteq> set defaultRandomAlphabet
                \<and> extra = [(''Message-ID'', ''<'' @ id' @ ''@'' @ domain @ ''>'')]
         else extra = [] \<and> mr' = mr"
    by blast
  have h: "y_headers yak = m_Headers m @ extra"
    by (simp add: y)
  have ascii: "isASCII ''Message-ID''"
    by (simp add: isASCII_def)
  have first: "if \<not> list_ex (\<lambda>kv. EqualFold (foldTable env) (fst kv) ''Message-ID'') (m_Headers m)
            \<and> count_list (a_Address (m_From (r_msg res))) (CHR ''@'') = 1
          then \<exists>id' local domain.
                 a_Address (m_From (r_msg res)) = local @ ''@'' @ domain
                 \<and> CHR ''@'' \<notin> set local \<and> CHR ''@'' \<notin> set domain
                 \<and> length id' = 15 \<and> set id' \<subseteq> set defaultRandomAlphabet
                 \<and> y_headers yak = m_Headers m @ [(''Message-ID'', ''<'' @ id' @ ''@'' @ domain @ ''>'')]
          else y_headers yak = m_Headers m"
    using e unfolding h m by (auto split: if_splits)
  have second: "a_Address (m_From (r_msg res)) =
         (if a_Address (m_From m) \<noteq> [] then a_Address (m_From m) else ac_Address (sc_From c))"
    by (simp add: m fillFrom_From)
  show ?thesis
    using first second EqualFold_ASCII [OF _ ascii] by blast
qed

lemma example_sent:
  "map_option y_headers
     (handedOver (SmtpClient_Send exampleDeps exampleClient exampleMessage exampleRand))
     = Some [(''X-Tag'', ''t1''), (''Message-ID'', ''<ABCDEFGHIJKLMNO@b.com>'')]"
  by code_simp

theorem default_message_id_witness:
  "\<exists>res yak. SmtpClient_Send exampleDeps exampleClient exampleMessage exampleRand = Inr res
     \<and> r_sent res = Some yak
     \<and> y_headers yak = [(''X-Tag'', ''t1''), (''Message-ID'', ''<ABCDEFGHIJKLMNO@b.com>'')]
     \<and> a_Address (m_From (r_msg res)) = ''a@b.com''
     \<and> EqualFold (foldTable exampleDeps) ''mEsSaGe-id'' ''Message-ID''"
proof -
  obtain res where r: "SmtpClient_Send exampleDeps exampleClient exampleMessage exampleRand = Inr res"
    using Send_total by blast
  with example_sent obtain yak where s: "r_sent res = Some yak"
    and h: "y_headers yak = [(''X-Tag'', ''t1''), (''Message-ID'', ''<ABCDEFGHIJKLMNO@b.com>'')]"
    by (auto simp add: handedOver_def)
  have k: "isASCII ''mEsSaGe-id''"
    by (simp add: isASCII_def)
  have mi: "matchesIgnoringCase ''mEsSaGe-id'' ''Message-ID''"
    by (simp add: matchesIgnoringCase_def sameLetter_def isUpperASCII_def)
  from default_message_id [OF r s] have
    "a_Address (m_From (r_msg res)) = ''a@b.com''"
    "\<forall>k. isASCII k \<longrightarrow>
       EqualFold (foldTable exampleDeps) k ''Message-ID'' = matchesIgnoringCase k ''Message-ID''"
    by (simp_all add: exampleMessage_def)
  then show ?thesis
    using r s h k mi by auto
qed

section \<open>Properties of the sendmail client\<close>

subsection \<open>The header block of the sendmail client\<close>

lemma headers_written:
  "Header_Write
     (Header_Set (Header_Set (Header_Set (Header_Set [] ''Subject'' s) ''From'' f)
        ''Content-Type'' ct) ''To'' t) buffer
   = (buffer @ headerLine ''Content-Type'' ct @ headerLine ''From'' f
        @ headerLine ''Subject'' s @ headerLine ''To'' t, None)"
  by (simp add: Header_Write_def Header_Set_def)







lemma bare_addresses: "addressesToStrings as False = map a_Address as"
  by (simp add: addressesToStrings_def format_def)

text \<open>Joining with commas is the first element followed by every other element with a
  comma before it.\<close>

lemma Join_commaJoined: "Join elems '','' = commaJoined elems"
proof (induction elems)
  case Nil
  show ?case by (simp add: commaJoined_def)
next
  case (Cons x rest)
  then show ?case
    by (cases rest) (simp_all add: commaJoined_def)
qed

subsection \<open>The rendering of the sender\<close>



lemma SendMail_Send_eq:
  "SendMail_Send env c m =
     \<lparr>s_err = run env
        \<lparr>Path = CmdPath c,
         Args = [CmdPath c, commaJoined (map a_Address (m_To m))],
         Stdin = headerLine ''Content-Type'' ''text/html; charset=UTF-8''
           @ headerLine ''From'' (Address_String env (m_From m))
           @ headerLine ''Subject'' (QEncoding_Encode env ''utf-8'' (m_Subject m))
           @ headerLine ''To'' (commaJoined (map a_Address (m_To m)))
           @ [CHR 0x0D, CHR 0x0A]
           @ (if m_HTML m \<noteq> [] then m_HTML m else m_Text m)\<rparr>,
      s_cmd = Some
        \<lparr>Path = CmdPath c,
         Args = [CmdPath c, commaJoined (map a_Address (m_To m))],
         Stdin = headerLine ''Content-Type'' ''text/html; charset=UTF-8''
           @ headerLine ''From'' (Address_String env (m_From m))
           @ headerLine ''Subject'' (QEncoding_Encode env ''utf-8'' (m_Subject m))
           @ headerLine ''To'' (commaJoined (map a_Address (m_To m)))
           @ [CHR 0x0D, CHR 0x0A]
           @ (if m_HTML m \<noteq> [] then m_HTML m else m_Text m)\<rparr>\<rparr>"
  unfolding SendMail_Send_def Let_def headers_written bare_addresses
  by (simp add: Buffer_Write_def Command_def Join_commaJoined)















lemma nameless_sender:
  "map_option Stdin (s_cmd (SendMail_Send exampleDeps \<lparr>CmdPath = ''/usr/sbin/sendmail''\<rparr> exampleMessage))
     = Some (''Content-Type: text/html; charset=UTF-8'' @ [CHR 0x0D, CHR 0x0A]
           @ ''From: <a@b.com>'' @ [CHR 0x0D, CHR 0x0A]
           @ ''Subject: Hi'' @ [CHR 0x0D, CHR 0x0A]
           @ ''To: bob@example.com'' @ [CHR 0x0D, CHR 0x0A]
           @ [CHR 0x0D, CHR 0x0A]
           @ ''<p>hi</p>'')"
  by code_simp


section \<open>Properties of sending through the interface and of the plugin\<close>

subsection \<open>The store\<close>

lemma Mailer_Send_other:
  assumes "Mailer_Send env t q w = Inr (err, w2)" and "p \<noteq> q"
  shows "messages w2 p = messages w p"
  using assms
  by (auto simp add: Mailer_Send_def split: option.splits Mailer.splits sum.splits)

lemma Mailer_Send_transports:
  assumes "Mailer_Send env t q w = Inr (err, w2)"
  shows "transports w2 = transports w"
  using assms
  by (auto simp add: Mailer_Send_def split: option.splits Mailer.splits sum.splits)

lemma Mailer_Send_smtp:
  assumes "messages w ptr = Some m" and "transports w t = Some (SmtpMailer c)"
  shows "\<exists>res :: SendResult. Mailer_Send env t ptr w =
           Inr (r_err res, w\<lparr>messages := (messages w)(ptr \<mapsto> fillFrom c m), generator := r_rand res\<rparr>)"
proof -
  obtain res where "SmtpClient_Send env c m (generator w) = Inr res" "r_msg res = fillFrom c m"
    using Send_total by blast
  then show ?thesis
    using assms by (intro exI [of _ res]) (simp add: Mailer_Send_def)
qed

lemma Mailer_Send_at:
  assumes "messages w ptr = Some m" and "transports w t = Some mlr"
  shows "\<exists>err w'. Mailer_Send env t ptr w = Inr (err, w')
     \<and> messages w' ptr =
         Some (case mlr of SmtpMailer c \<Rightarrow> fillFrom c m | SendMailMailer c \<Rightarrow> m)"
proof (cases mlr)
  case (SmtpMailer c)
  from Mailer_Send_smtp [OF assms(1), of t c env] assms(2) obtain res :: SendResult where
    "Mailer_Send env t ptr w =
       Inr (r_err res, w\<lparr>messages := (messages w)(ptr \<mapsto> fillFrom c m), generator := r_rand res\<rparr>)"
    unfolding SmtpMailer by blast
  then show ?thesis
    unfolding SmtpMailer by simp
next
  case (SendMailMailer c)
  then show ?thesis
    using assms by (simp add: Mailer_Send_def)
qed

text \<open>A from field that is not empty is kept by a completion.\<close>

lemma fillFrom_keeps:
  "a_Name (m_From m) \<noteq> [] \<Longrightarrow> a_Name (m_From (fillFrom c m)) = a_Name (m_From m)"
  "a_Address (m_From m) \<noteq> [] \<Longrightarrow> a_Address (m_From (fillFrom c m)) = a_Address (m_From m)"
  by (simp_all add: fillFrom_From)

text \<open>
  C5, as amended. A send through either transport, on the message at a pointer, returns (no
  panic) and writes the completed from into that message, where it stays: the message behind
  the caller's pointer holds it after the call, and a later send of the same message, through
  any transport, finds it there and keeps every field of it that is not empty. This is the
  only change: every other field of the message is as before (the sendmail client changes
  nothing at all), every other message is as before, the mailers are as before, and a later
  send on another message leaves the message as the first send left it.
\<close>

theorem Send_frame:
  assumes "messages w ptr = Some m" and "transports w t = Some mlr"
  shows "\<exists>err w' m'. Mailer_Send env t ptr w = Inr (err, w')
     \<and> messages w' ptr = Some m'
     \<and> m_From m' =
         (case mlr of
            SmtpMailer c \<Rightarrow>
              \<lparr>a_Name = (if a_Name (m_From m) \<noteq> [] then a_Name (m_From m)
                         else ac_Name (sc_From c)),
               a_Address = (if a_Address (m_From m) \<noteq> [] then a_Address (m_From m)
                            else ac_Address (sc_From c))\<rparr>
          | SendMailMailer c \<Rightarrow> m_From m)
     \<and> m_To m' = m_To m \<and> m_Cc m' = m_Cc m \<and> m_Bcc m' = m_Bcc m
     \<and> m_Subject m' = m_Subject m \<and> m_HTML m' = m_HTML m \<and> m_Text m' = m_Text m
     \<and> m_Attachments m' = m_Attachments m \<and> m_Headers m' = m_Headers m
     \<and> (\<forall>q. q \<noteq> ptr \<longrightarrow> messages w' q = messages w q)
     \<and> transports w' = transports w
     \<and> (\<forall>env2 t2 q err2 w2.
           q \<noteq> ptr \<and> Mailer_Send env2 t2 q w' = Inr (err2, w2) \<longrightarrow>
           messages w2 ptr = Some m')
     \<and> (\<forall>env2 t2 err2 w2.
           Mailer_Send env2 t2 ptr w' = Inr (err2, w2) \<longrightarrow>
           (\<exists>m2. messages w2 ptr = Some m2
              \<and> (a_Name (m_From m') \<noteq> [] \<longrightarrow> a_Name (m_From m2) = a_Name (m_From m'))
              \<and> (a_Address (m_From m') \<noteq> [] \<longrightarrow>
                   a_Address (m_From m2) = a_Address (m_From m'))))"
proof -
  let ?m' = "case mlr of SmtpMailer c \<Rightarrow> fillFrom c m | SendMailMailer c \<Rightarrow> m"
  from Mailer_Send_at [OF assms, of env] obtain err w' where
    s: "Mailer_Send env t ptr w = Inr (err, w')" and at: "messages w' ptr = Some ?m'"
    by blast
  have frm: "m_From ?m' =
         (case mlr of
            SmtpMailer c \<Rightarrow>
              \<lparr>a_Name = (if a_Name (m_From m) \<noteq> [] then a_Name (m_From m)
                         else ac_Name (sc_From c)),
               a_Address = (if a_Address (m_From m) \<noteq> [] then a_Address (m_From m)
                            else ac_Address (sc_From c))\<rparr>
          | SendMailMailer c \<Rightarrow> m_From m)"
    by (cases mlr) (simp_all add: fillFrom_From)
  have rest: "m_To ?m' = m_To m \<and> m_Cc ?m' = m_Cc m \<and> m_Bcc ?m' = m_Bcc m
     \<and> m_Subject ?m' = m_Subject m \<and> m_HTML ?m' = m_HTML m \<and> m_Text ?m' = m_Text m
     \<and> m_Attachments ?m' = m_Attachments m \<and> m_Headers ?m' = m_Headers m"
    by (cases mlr) (simp_all add: fillFrom_fields)
  have others: "\<forall>q. q \<noteq> ptr \<longrightarrow> messages w' q = messages w q"
    using Mailer_Send_other [OF s] by blast
  have mailers: "transports w' = transports w"
    using Mailer_Send_transports [OF s] .
  have later: "\<forall>env2 t2 q err2 w2.
           q \<noteq> ptr \<and> Mailer_Send env2 t2 q w' = Inr (err2, w2) \<longrightarrow>
           messages w2 ptr = Some ?m'"
    using Mailer_Send_other at by (metis (no_types, lifting))
  have again: "\<forall>env2 t2 err2 w2.
           Mailer_Send env2 t2 ptr w' = Inr (err2, w2) \<longrightarrow>
           (\<exists>m2. messages w2 ptr = Some m2
              \<and> (a_Name (m_From ?m') \<noteq> [] \<longrightarrow> a_Name (m_From m2) = a_Name (m_From ?m'))
              \<and> (a_Address (m_From ?m') \<noteq> [] \<longrightarrow>
                   a_Address (m_From m2) = a_Address (m_From ?m')))"
  proof (intro allI impI)
    fix env2 t2 err2 w2
    assume s2: "Mailer_Send env2 t2 ptr w' = Inr (err2, w2)"
    then obtain mlr2 where t2: "transports w' t2 = Some mlr2"
      by (auto simp add: Mailer_Send_def split: option.splits)
    from Mailer_Send_at [OF at t2, of env2] s2 have
      m2: "messages w2 ptr =
         Some (case mlr2 of SmtpMailer c \<Rightarrow> fillFrom c ?m' | SendMailMailer c \<Rightarrow> ?m')"
      by auto
    show "\<exists>m2. messages w2 ptr = Some m2
              \<and> (a_Name (m_From ?m') \<noteq> [] \<longrightarrow> a_Name (m_From m2) = a_Name (m_From ?m'))
              \<and> (a_Address (m_From ?m') \<noteq> [] \<longrightarrow>
                   a_Address (m_From m2) = a_Address (m_From ?m'))"
      unfolding m2 by (cases mlr2) (simp_all add: fillFrom_keeps)
  qed
  show ?thesis
    using s at frm rest others mailers later again by blast
qed

theorem Send_frame_witness:
  "\<exists>err w' err2 w2 err3 w3.
     Mailer_Send exampleDeps 0 1 exampleWorld = Inr (err, w')
     \<and> messages w' 1 =
         Some (exampleMessage\<lparr>m_From := \<lparr>a_Name = ''Support'', a_Address = ''support@example.com''\<rparr>\<rparr>)
     \<and> messages w' 0 = Some exampleMessage
     \<and> transports w' = transports exampleWorld
     \<and> Mailer_Send exampleDeps 1 0 w' = Inr (err2, w2)
     \<and> messages w2 1 = messages w' 1
     \<and> Mailer_Send exampleDeps 2 1 w' = Inr (err3, w3)
     \<and> map_option m_From (messages w3 1) =
         Some \<lparr>a_Name = ''Support'', a_Address = ''support@example.com''\<rparr>"
proof -
  let ?m = "exampleMessage\<lparr>m_From := \<lparr>a_Name = [], a_Address = []\<rparr>\<rparr>"
  have at: "messages exampleWorld 1 = Some ?m"
    and tr: "transports exampleWorld 0 = Some (SmtpMailer exampleClient)"
    by (simp_all add: exampleWorld_def)
  from Send_frame [OF at tr, of exampleDeps]
  obtain err w' m' where
    s: "Mailer_Send exampleDeps 0 1 exampleWorld = Inr (err, w')" and
    m': "messages w' 1 = Some m'" and
    f: "m_From m' = \<lparr>a_Name = ''Support'', a_Address = ''support@example.com''\<rparr>" and
    r: "m_To m' = m_To ?m" "m_Cc m' = m_Cc ?m" "m_Bcc m' = m_Bcc ?m"
       "m_Subject m' = m_Subject ?m" "m_HTML m' = m_HTML ?m" "m_Text m' = m_Text ?m"
       "m_Attachments m' = m_Attachments ?m" "m_Headers m' = m_Headers ?m" and
    o: "\<forall>q. q \<noteq> 1 \<longrightarrow> messages w' q = messages exampleWorld q" and
    t: "transports w' = transports exampleWorld" and
    l: "\<forall>env2 t2 q err2 w2.
           q \<noteq> 1 \<and> Mailer_Send env2 t2 q w' = Inr (err2, w2) \<longrightarrow>
           messages w2 1 = Some m'" and
    g: "\<forall>env2 t2 err2 w2.
           Mailer_Send env2 t2 1 w' = Inr (err2, w2) \<longrightarrow>
           (\<exists>m2. messages w2 1 = Some m2
              \<and> (a_Name (m_From m') \<noteq> [] \<longrightarrow> a_Name (m_From m2) = a_Name (m_From m'))
              \<and> (a_Address (m_From m') \<noteq> [] \<longrightarrow>
                   a_Address (m_From m2) = a_Address (m_From m')))"
    by (auto simp add: exampleClient_def)
  have eq: "m' = exampleMessage\<lparr>m_From := \<lparr>a_Name = ''Support'', a_Address = ''support@example.com''\<rparr>\<rparr>"
    using f r by (cases m') (simp add: exampleMessage_def)
  have zero: "messages w' 0 = Some exampleMessage"
    using o by (simp add: exampleWorld_def)
  have t1: "transports w' 1 = Some (SendMailMailer \<lparr>CmdPath = ''/usr/sbin/sendmail''\<rparr>)"
    and t2: "transports w' 2 = Some (SmtpMailer otherClient)"
    unfolding t by (simp_all add: exampleWorld_def)
  obtain err2 w2 where s2: "Mailer_Send exampleDeps 1 0 w' = Inr (err2, w2)"
    using zero t1 by (simp add: Mailer_Send_def)
  have keep: "messages w2 1 = Some m'"
    using l s2 by (metis zero_neq_one)
  obtain err3 w3 where s3: "Mailer_Send exampleDeps 2 1 w' = Inr (err3, w3)"
    using Mailer_Send_at [OF m' t2, of exampleDeps] by blast
  from g s3 have "\<exists>m2. messages w3 1 = Some m2
              \<and> (a_Name (m_From m') \<noteq> [] \<longrightarrow> a_Name (m_From m2) = a_Name (m_From m'))
              \<and> (a_Address (m_From m') \<noteq> [] \<longrightarrow>
                   a_Address (m_From m2) = a_Address (m_From m'))"
    by blast
  then obtain m2 where m2: "messages w3 1 = Some m2"
    and n2': "a_Name (m_From m') \<noteq> [] \<longrightarrow> a_Name (m_From m2) = a_Name (m_From m')"
    and a2': "a_Address (m_From m') \<noteq> [] \<longrightarrow> a_Address (m_From m2) = a_Address (m_From m')"
    by blast
  have n2: "a_Name (m_From m2) = ''Support''"
    and a2: "a_Address (m_From m2) = ''support@example.com''"
    using n2' a2' f by simp_all
  have "m_From m2 = \<lparr>a_Name = ''Support'', a_Address = ''support@example.com''\<rparr>"
    using n2 a2 by (cases "m_From m2") simp
  then show ?thesis
    using s m' eq zero t s2 keep s3 m2 by auto
qed

text \<open>
  The claim as it stands fails: the message at pointer 1 has an empty from before the send
  and holds the default from of the client after it, and a later send of that message through
  a second client hands the first client's from to the builder, not its own default.
\<close>

theorem from_persisted_counterexample:
  "map_option m_From (messages exampleWorld 1) = Some \<lparr>a_Name = [], a_Address = []\<rparr>
   \<and> map_option m_From (messageAfter (Mailer_Send exampleDeps 0 1 exampleWorld) 1)
       = Some \<lparr>a_Name = ''Support'', a_Address = ''support@example.com''\<rparr>
   \<and> map_option m_From (messageAfter (Mailer_Send exampleDeps 0 1 exampleWorld) 1)
       \<noteq> map_option m_From (messages exampleWorld 1)
   \<and> fromHandedOver
        (SmtpClient_Send exampleDeps otherClient
           (exampleMessage\<lparr>m_From := \<lparr>a_Name = ''Support'', a_Address = ''support@example.com''\<rparr>\<rparr>)
           exampleRand)
       = Some (''Support'', ''support@example.com'')"
proof -
  have a: "map_option m_From (messages exampleWorld 1) = Some \<lparr>a_Name = [], a_Address = []\<rparr>"
    by (simp add: exampleWorld_def)
  have b: "map_option m_From (messageAfter (Mailer_Send exampleDeps 0 1 exampleWorld) 1)
       = Some \<lparr>a_Name = ''Support'', a_Address = ''support@example.com''\<rparr>"
    by code_simp
  have c: "fromHandedOver
        (SmtpClient_Send exampleDeps otherClient
           (exampleMessage\<lparr>m_From := \<lparr>a_Name = ''Support'', a_Address = ''support@example.com''\<rparr>\<rparr>)
           exampleRand)
       = Some (''Support'', ''support@example.com'')"
    by code_simp
  show ?thesis
    unfolding a b c by simp
qed


subsection \<open>Init\<close>

lemma findSendmailPath_order:
  "fst (findSendmailPath env) =
     (case LookPath env ''/usr/sbin/sendmail'' of
        Inr path \<Rightarrow> Inr path
      | Inl e1 \<Rightarrow>
          (case LookPath env ''/usr/bin/sendmail'' of
             Inr path \<Rightarrow> Inr path
           | Inl e2 \<Rightarrow>
               (case LookPath env ''sendmail'' of
                  Inr path \<Rightarrow> Inr path
                | Inl e3 \<Rightarrow> Inl (errors_New ''failed to locate a sendmail executable path''))))"
  by (simp add: findSendmailPath_def split: sum.splits prod.splits)

lemma keys_differ: "smtpKey \<noteq> sendmailKey"
  by (simp add: smtpKey_def sendmailKey_def)

lemma Init_disabled_iff:
  "(fst (Init env p cfg) = Some (E_Kind op Disabled)) =
     (\<not> Has cfg smtpKey \<and> \<not> Has cfg sendmailKey)"
  by (auto simp add: Init_def split: sum.splits prod.splits)

lemma Init_disabled:
  "\<not> Has cfg smtpKey \<and> \<not> Has cfg sendmailKey \<longrightarrow>
     Init env p cfg = (Some (E_Kind op Disabled), p, [])"
  by (simp add: Init_def)

lemma Init_sendmail:
  assumes "\<not> Has cfg smtpKey" and "Has cfg sendmailKey"
    and "UnmarshalKey_SendMail cfg sendmailKey = Inr sm"
  shows "case (if CmdPath sm = [] then fst (findSendmailPath env) else LookPath env (CmdPath sm)) of
           Inl err \<Rightarrow> fst (Init env p cfg) = Some (E_Err op err) \<and> fst (snd (Init env p cfg)) = p
         | Inr path \<Rightarrow>
             fst (Init env p cfg) = None
             \<and> fst (snd (Init env p cfg)) = p\<lparr>mailer := Some (SendMailMailer (sm\<lparr>CmdPath := path\<rparr>))\<rparr>"
  using assms by (auto simp add: Init_def split: sum.splits prod.splits)

lemma Init_sendmail_decode_error:
  assumes "\<not> Has cfg smtpKey" and "Has cfg sendmailKey"
    and "UnmarshalKey_SendMail cfg sendmailKey = Inl err"
  shows "Init env p cfg = (Some (E_Err op err), p, [Unmarshal sendmailKey])"
  using assms by (simp add: Init_def)

lemma Init_sendmail_given_path:
  assumes "\<not> Has cfg smtpKey" and "Has cfg sendmailKey"
    and "UnmarshalKey_SendMail cfg sendmailKey = Inr sm" and "CmdPath sm \<noteq> []"
  shows "snd (snd (Init env p cfg)) = [Unmarshal sendmailKey, Look (CmdPath sm)]"
  using assms by (auto simp add: Init_def split: sum.splits)

text \<open>
  C9. \<^verbatim>\<open>Plugin.Init\<close> returns the error of kind \<^verbatim>\<open>Disabled\<close> exactly when neither the smtp
  key nor the sendmail key is present, and then installs no mailer. When the sendmail key
  alone is present and decodes, the command path is resolved inside \<^verbatim>\<open>Init\<close>: an empty
  path is the first of \<^verbatim>\<open>/usr/sbin/sendmail\<close>, \<^verbatim>\<open>/usr/bin/sendmail\<close> and \<^verbatim>\<open>sendmail\<close>
  that \<^verbatim>\<open>exec.LookPath\<close> finds, a non-empty path is looked up once; when the resolution
  fails \<^verbatim>\<open>Init\<close> returns that error wrapped (an ordinary error, not \<^verbatim>\<open>Disabled\<close>) and
  installs no mailer, and when it succeeds the installed sendmail client holds the resolved
  path, which a later \<^verbatim>\<open>Send\<close> runs as it is.
\<close>

theorem Init_disabled_or_resolved:
  "((fst (Init env p cfg) = Some (E_Kind op Disabled)) =
      (\<not> Has cfg smtpKey \<and> \<not> Has cfg sendmailKey))
   \<and> (\<not> Has cfg smtpKey \<and> \<not> Has cfg sendmailKey \<longrightarrow>
        Init env p cfg = (Some (E_Kind op Disabled), p, []))
   \<and> (\<not> Has cfg smtpKey \<and> Has cfg sendmailKey
        \<and> UnmarshalKey_SendMail cfg sendmailKey = Inr sm \<longrightarrow>
        (case (if CmdPath sm = [] then fst (findSendmailPath env)
               else LookPath env (CmdPath sm)) of
           Inl err \<Rightarrow>
             fst (Init env p cfg) = Some (E_Err op err) \<and> fst (snd (Init env p cfg)) = p
         | Inr path \<Rightarrow>
             fst (Init env p cfg) = None
             \<and> fst (snd (Init env p cfg)) =
                 p\<lparr>mailer := Some (SendMailMailer (sm\<lparr>CmdPath := path\<rparr>))\<rparr>)
        \<and> (CmdPath sm \<noteq> [] \<longrightarrow>
             snd (snd (Init env p cfg)) = [Unmarshal sendmailKey, Look (CmdPath sm)]))
   \<and> fst (findSendmailPath env) =
       (case LookPath env ''/usr/sbin/sendmail'' of
          Inr path \<Rightarrow> Inr path
        | Inl e1 \<Rightarrow>
            (case LookPath env ''/usr/bin/sendmail'' of
               Inr path \<Rightarrow> Inr path
             | Inl e2 \<Rightarrow>
                 (case LookPath env ''sendmail'' of
                    Inr path \<Rightarrow> Inr path
                  | Inl e3 \<Rightarrow> Inl (errors_New ''failed to locate a sendmail executable path''))))
   \<and> map_option Path (s_cmd (SendMail_Send env' c m)) = Some (CmdPath c)"
proof -
  have run: "map_option Path (s_cmd (SendMail_Send env' c m)) = Some (CmdPath c)"
    by (simp add: SendMail_Send_eq)
  have sm: "\<not> Has cfg smtpKey \<and> Has cfg sendmailKey
        \<and> UnmarshalKey_SendMail cfg sendmailKey = Inr sm \<longrightarrow>
        (case (if CmdPath sm = [] then fst (findSendmailPath env)
               else LookPath env (CmdPath sm)) of
           Inl err \<Rightarrow>
             fst (Init env p cfg) = Some (E_Err op err) \<and> fst (snd (Init env p cfg)) = p
         | Inr path \<Rightarrow>
             fst (Init env p cfg) = None
             \<and> fst (snd (Init env p cfg)) =
                 p\<lparr>mailer := Some (SendMailMailer (sm\<lparr>CmdPath := path\<rparr>))\<rparr>)
        \<and> (CmdPath sm \<noteq> [] \<longrightarrow>
             snd (snd (Init env p cfg)) = [Unmarshal sendmailKey, Look (CmdPath sm)])"
    using Init_sendmail [of cfg sm env p] Init_sendmail_given_path [of cfg sm env p]
    by blast
  show ?thesis
    using Init_disabled_iff [of env p cfg] Init_disabled [of cfg env p] sm
      findSendmailPath_order [of env] run
    by blast
qed

theorem Init_disabled_or_resolved_witness:
  "Init usrBinOnly \<lparr>mailer = None\<rparr> sendmailOnly =
     (None, \<lparr>mailer = Some (SendMailMailer \<lparr>CmdPath = ''/usr/bin/sendmail''\<rparr>)\<rparr>,
      [Unmarshal ''mailer.sendmail'', Look ''/usr/sbin/sendmail'', Look ''/usr/bin/sendmail''])
   \<and> fst (Init usrBinOnly \<lparr>mailer = None\<rparr>
            (sendmailOnly\<lparr>UnmarshalKey_SendMail := (\<lambda>name. Inr \<lparr>CmdPath = ''msmtp''\<rparr>)\<rparr>))
       = Some (E_Err ''mailer_plugin_init'' (errors_New ''executable file not found''))
   \<and> fst (Init usrBinOnly \<lparr>mailer = None\<rparr> (sendmailOnly\<lparr>Has := (\<lambda>name. False)\<rparr>))
       = Some (E_Kind ''mailer_plugin_init'' Disabled)"
proof -
  let ?p = "\<lparr>mailer = None\<rparr>"
  let ?cfg2 = "sendmailOnly\<lparr>UnmarshalKey_SendMail := (\<lambda>name. Inr \<lparr>CmdPath = ''msmtp''\<rparr>)\<rparr>"
  let ?cfg3 = "sendmailOnly\<lparr>Has := (\<lambda>name. False)\<rparr>"
  have trace: "snd (snd (Init usrBinOnly ?p sendmailOnly)) =
      [Unmarshal ''mailer.sendmail'', Look ''/usr/sbin/sendmail'', Look ''/usr/bin/sendmail'']"
    by (simp add: Init_def sendmailOnly_def usrBinOnly_def exampleDeps_def smtpKey_def
        sendmailKey_def PluginName_def findSendmailPath_def)
  have k: "\<not> Has sendmailOnly smtpKey" "Has sendmailOnly sendmailKey"
    "\<not> Has ?cfg2 smtpKey" "Has ?cfg2 sendmailKey"
    "\<not> Has ?cfg3 smtpKey" "\<not> Has ?cfg3 sendmailKey"
    by (simp_all add: sendmailOnly_def smtpKey_def sendmailKey_def PluginName_def)
  have d1: "UnmarshalKey_SendMail sendmailOnly sendmailKey = Inr \<lparr>CmdPath = []\<rparr>"
    and d2: "UnmarshalKey_SendMail ?cfg2 sendmailKey = Inr \<lparr>CmdPath = ''msmtp''\<rparr>"
    by (simp_all add: sendmailOnly_def)
  note t1 = Init_disabled_or_resolved [of usrBinOnly ?p sendmailOnly "\<lparr>CmdPath = []\<rparr>"
      exampleDeps "\<lparr>CmdPath = []\<rparr>" exampleMessage]
  note t2 = Init_disabled_or_resolved [of usrBinOnly ?p ?cfg2 "\<lparr>CmdPath = ''msmtp''\<rparr>"
      exampleDeps "\<lparr>CmdPath = []\<rparr>" exampleMessage]
  note t3 = Init_disabled_or_resolved [of usrBinOnly ?p ?cfg3 "\<lparr>CmdPath = []\<rparr>"
      exampleDeps "\<lparr>CmdPath = []\<rparr>" exampleMessage]
  have l: "LookPath usrBinOnly ''/usr/sbin/sendmail'' = Inl (errors_New ''executable file not found'')"
    "LookPath usrBinOnly ''/usr/bin/sendmail'' = Inr ''/usr/bin/sendmail''"
    "LookPath usrBinOnly ''msmtp'' = Inl (errors_New ''executable file not found'')"
    by (simp_all add: usrBinOnly_def)
  have r1: "fst (Init usrBinOnly ?p sendmailOnly) = None
      \<and> fst (snd (Init usrBinOnly ?p sendmailOnly)) =
          \<lparr>mailer = Some (SendMailMailer \<lparr>CmdPath = ''/usr/bin/sendmail''\<rparr>)\<rparr>"
  proof -
    have f: "fst (findSendmailPath usrBinOnly) = Inr ''/usr/bin/sendmail''"
      using t1 l by simp
    from t1 k(1,2) d1 have
      "case (if CmdPath \<lparr>CmdPath = []\<rparr> = [] then fst (findSendmailPath usrBinOnly)
               else LookPath usrBinOnly (CmdPath \<lparr>CmdPath = []\<rparr>)) of
           Inl err \<Rightarrow>
             fst (Init usrBinOnly ?p sendmailOnly) = Some (E_Err op err)
             \<and> fst (snd (Init usrBinOnly ?p sendmailOnly)) = ?p
         | Inr path \<Rightarrow>
             fst (Init usrBinOnly ?p sendmailOnly) = None
             \<and> fst (snd (Init usrBinOnly ?p sendmailOnly)) =
                 ?p\<lparr>mailer := Some (SendMailMailer (\<lparr>CmdPath = []\<rparr>\<lparr>CmdPath := path\<rparr>))\<rparr>"
      by blast
    then show ?thesis
      by (simp add: f)
  qed
  have r2: "fst (Init usrBinOnly ?p ?cfg2) =
      Some (E_Err ''mailer_plugin_init'' (errors_New ''executable file not found''))"
  proof -
    from t2 k(3,4) d2 have
      "case (if CmdPath \<lparr>CmdPath = ''msmtp''\<rparr> = [] then fst (findSendmailPath usrBinOnly)
               else LookPath usrBinOnly (CmdPath \<lparr>CmdPath = ''msmtp''\<rparr>)) of
           Inl err \<Rightarrow>
             fst (Init usrBinOnly ?p ?cfg2) = Some (E_Err op err)
             \<and> fst (snd (Init usrBinOnly ?p ?cfg2)) = ?p
         | Inr path \<Rightarrow>
             fst (Init usrBinOnly ?p ?cfg2) = None
             \<and> fst (snd (Init usrBinOnly ?p ?cfg2)) =
                 ?p\<lparr>mailer := Some (SendMailMailer (\<lparr>CmdPath = ''msmtp''\<rparr>\<lparr>CmdPath := path\<rparr>))\<rparr>"
      by blast
    then show ?thesis
      by (simp add: l op_def)
  qed
  have r3: "fst (Init usrBinOnly ?p ?cfg3) = Some (E_Kind ''mailer_plugin_init'' Disabled)"
    using t3 k(5,6) by (simp add: op_def)
  show ?thesis
    using r1 r2 r3 trace by (simp add: prod_eq_iff)
qed

text \<open>
  C10. When both keys are present \<^verbatim>\<open>Plugin.Init\<close> decodes the smtp key and nothing else:
  the sendmail key is never decoded and no path is looked up. If the smtp configuration
  decodes, the installed mailer is the SMTP client and \<^verbatim>\<open>Init\<close> returns no error; if it
  does not, \<^verbatim>\<open>Init\<close> returns that error and installs nothing. The outcome does not depend
  on what the sendmail key would decode to.
\<close>

theorem Init_smtp_first:
  assumes "Has cfg smtpKey" and "Has cfg sendmailKey"
  shows "snd (snd (Init env p cfg)) = [Unmarshal smtpKey]
     \<and> (case UnmarshalKey_SmtpClient cfg smtpKey of
           Inr client \<Rightarrow>
             fst (Init env p cfg) = None
             \<and> fst (snd (Init env p cfg)) = p\<lparr>mailer := Some (SmtpMailer client)\<rparr>
         | Inl err \<Rightarrow>
             fst (Init env p cfg) = Some (E_Err op err) \<and> fst (snd (Init env p cfg)) = p)
     \<and> Init env p (cfg\<lparr>UnmarshalKey_SendMail := decode\<rparr>) = Init env p cfg
     \<and> Init env' p cfg = Init env p cfg
     \<and> smtpKey \<noteq> sendmailKey"
  using assms keys_differ by (simp add: Init_def split: sum.splits)

theorem Init_smtp_first_witness:
  "Init usrBinOnly \<lparr>mailer = None\<rparr> bothKeys =
     (None, \<lparr>mailer = Some (SmtpMailer exampleClient)\<rparr>, [Unmarshal ''mailer.smtp''])"
proof -
  have k: "Has bothKeys smtpKey" "Has bothKeys sendmailKey"
    by (simp_all add: bothKeys_def smtpKey_def sendmailKey_def PluginName_def)
  have d: "UnmarshalKey_SmtpClient bothKeys smtpKey = Inr exampleClient"
    by (simp add: bothKeys_def)
  from Init_smtp_first [OF k, of usrBinOnly "\<lparr>mailer = None\<rparr>" "UnmarshalKey_SendMail bothKeys" usrBinOnly]
  have "snd (snd (Init usrBinOnly \<lparr>mailer = None\<rparr> bothKeys)) = [Unmarshal smtpKey]
     \<and> fst (Init usrBinOnly \<lparr>mailer = None\<rparr> bothKeys) = None
     \<and> fst (snd (Init usrBinOnly \<lparr>mailer = None\<rparr> bothKeys)) =
         \<lparr>mailer = Some (SmtpMailer exampleClient)\<rparr>"
    by (simp add: d)
  then show ?thesis
    by (simp add: prod_eq_iff smtpKey_def PluginName_def)
qed


end
